theory Spec2Isabelle
  imports Main "HOL-Library.Multiset" "HOL-Library.Product_Lexorder"
begin

section \<open>The schema: tables of the leaderboard database\<close>

text \<open>
  The migration script declares three tables. A table is modelled as the list of its
  rows in the order a sequential scan returns them; the engine promises nothing about
  that order, so every list is a possible table and the theorems below quantify over
  all of them. A UUID is an opaque key, modelled as a natural number; timestamps are
  natural numbers (ticks of the database clock); a nullable column is an option.
\<close>

type_synonym uuid = nat
type_synonym timestamptz = nat

datatype app_role = admin | user

text \<open>\<^verbatim>\<open>CREATE TABLE public.leaderboard_members\<close>\<close>

record member =
  m_id :: uuid
  m_name :: string
  score :: int
  avatar_url :: "string option"
  rank :: "int option"
  created_at :: timestamptz
  updated_at :: timestamptz

text \<open>\<^verbatim>\<open>CREATE TABLE public.profiles\<close>\<close>

record profile =
  p_id :: uuid
  p_email :: string
  p_full_name :: "string option"
  p_role :: app_role
  p_created_at :: timestamptz
  p_updated_at :: timestamptz

text \<open>\<^verbatim>\<open>CREATE TABLE public.user_roles\<close>\<close>

record user_role =
  ur_id :: uuid
  ur_user_id :: uuid
  ur_role :: app_role

text \<open>
  The errors a statement can end with, under the names of their codes: a key or
  \<^verbatim>\<open>NOT NULL\<close> constraint of the schema (23505, 23502), a value outside the range of
  \<^verbatim>\<open>INTEGER\<close> (22003), a text that is no \<^verbatim>\<open>INTEGER\<close> (22P02), the stack of the engine used
  up (54001, stack depth limit exceeded); then a query for a single row that finds none
  or several, and a request that never got an answer.
\<close>

datatype db_error =
  unique_violation | not_null_violation | numeric_value_out_of_range
| invalid_text_representation | statement_too_complex
| not_a_single_row | request_failed

definition int4 :: "int \<Rightarrow> bool" where
  "int4 n = (- 2147483648 \<le> n \<and> n \<le> 2147483647)"

definition int4_opt :: "int option \<Rightarrow> bool" where
  "int4_opt v = (case v of None \<Rightarrow> True | Some n \<Rightarrow> int4 n)"

subsection \<open>The rank trigger\<close>

text \<open>
  \<^verbatim>\<open>ORDER BY score DESC, created_at ASC\<close>: the sort key of a row. Rows that agree on both
  columns are peers; the engine may number peers in any order, the model numbers them
  in scan order (the sort is stable).
\<close>

definition rank_key :: "member \<Rightarrow> int \<times> timestamptz" where
  "rank_key m = (- score m, created_at m)"

text \<open>
  The subquery \<^verbatim>\<open>ranked\<close>:
  \<^verbatim>\<open>SELECT id, ROW_NUMBER() OVER (ORDER BY score DESC, created_at ASC) as new_rank\<close>.
\<close>

definition ranked :: "member list \<Rightarrow> (uuid \<times> int) list" where
  "ranked tbl =
     (let srt = sort_key rank_key tbl
      in zip (map m_id srt) (map int [1..<Suc (length srt)]))"

text \<open>\<^verbatim>\<open>update_updated_at_column\<close>, the row trigger \<^verbatim>\<open>BEFORE UPDATE\<close>.\<close>

definition update_updated_at_column :: "timestamptz \<Rightarrow> member \<Rightarrow> member" where
  "update_updated_at_column now m = m\<lparr>updated_at := now\<rparr>"

text \<open>
  \<^verbatim>\<open>update_leaderboard_ranks\<close>, the body of the trigger function: the \<^verbatim>\<open>UPDATE ... FROM
  ranked WHERE leaderboard_members.id = ranked.id\<close>. A row that joins gets the new rank
  (and, being updated, a new \<^verbatim>\<open>updated_at\<close>); a row that does not join is left alone.
  Every row of the table has its key in \<^verbatim>\<open>ranked\<close>, so all rows are written anew, in scan
  order: the order of the table is the same afterwards.
\<close>

definition update_leaderboard_ranks :: "timestamptz \<Rightarrow> member list \<Rightarrow> member list" where
  "update_leaderboard_ranks now tbl =
     map (\<lambda>m. case map_of (ranked tbl) (m_id m) of
                 None \<Rightarrow> m
               | Some r \<Rightarrow> update_updated_at_column now (m\<lparr>rank := Some r\<rparr>)) tbl"

subsection \<open>Statements on \<^verbatim>\<open>leaderboard_members\<close>\<close>

text \<open>
  A row to insert, with the default of the key (\<^verbatim>\<open>gen_random_uuid()\<close>) already resolved;
  the score is the value the statement gives (0, the default, when it gives none), \<open>None\<close>
  when it gives \<^verbatim>\<open>NULL\<close>;
  \<^verbatim>\<open>created_at\<close> is \<^verbatim>\<open>now()\<close> unless the statement gives it, and \<^verbatim>\<open>updated_at\<close> is
  \<^verbatim>\<open>now()\<close>. A row is stored only when its score is not \<^verbatim>\<open>NULL\<close> (see \<open>apply_stmt\<close>).
\<close>

record new_row =
  nr_id :: uuid
  nr_name :: string
  nr_score :: "int option"
  nr_avatar_url :: "string option"
  nr_rank :: "int option"
  nr_created_at :: "timestamptz option"

text \<open>
  The \<^verbatim>\<open>SET\<close> clause of an update: for each column, the expression assigned to it (a
  function of the row as it was, \<open>None\<close> for \<^verbatim>\<open>NULL\<close>), or nothing. What it assigns to
  \<^verbatim>\<open>updated_at\<close> is lost to the row trigger.
\<close>

record assignments =
  set_id :: "(member \<Rightarrow> uuid) option"
  set_name :: "(member \<Rightarrow> string) option"
  set_score :: "(member \<Rightarrow> int option) option"
  set_avatar_url :: "(member \<Rightarrow> string option) option"
  set_rank :: "(member \<Rightarrow> int option) option"
  set_created_at :: "(member \<Rightarrow> timestamptz) option"

datatype stmt =
  Insert "new_row list"
| Update "member \<Rightarrow> bool" assignments
| Delete "member \<Rightarrow> bool"

definition mk_row :: "timestamptz \<Rightarrow> new_row \<Rightarrow> member" where
  "mk_row now r =
     \<lparr>m_id = nr_id r, m_name = nr_name r, score = the (nr_score r),
      avatar_url = nr_avatar_url r,
      rank = nr_rank r,
      created_at = (case nr_created_at r of None \<Rightarrow> now | Some t \<Rightarrow> t),
      updated_at = now\<rparr>"

definition assign :: "assignments \<Rightarrow> member \<Rightarrow> member" where
  "assign a m =
     \<lparr>m_id = (case set_id a of None \<Rightarrow> m_id m | Some e \<Rightarrow> e m),
      m_name = (case set_name a of None \<Rightarrow> m_name m | Some e \<Rightarrow> e m),
      score = (case set_score a of None \<Rightarrow> score m | Some e \<Rightarrow> the (e m)),
      avatar_url = (case set_avatar_url a of None \<Rightarrow> avatar_url m | Some e \<Rightarrow> e m),
      rank = (case set_rank a of None \<Rightarrow> rank m | Some e \<Rightarrow> e m),
      created_at = (case set_created_at a of None \<Rightarrow> created_at m | Some e \<Rightarrow> e m),
      updated_at = updated_at m\<rparr>"

text \<open>
  A value assigned to \<^verbatim>\<open>score\<close> or \<^verbatim>\<open>rank\<close> that is no \<^verbatim>\<open>INTEGER\<close>, and \<^verbatim>\<open>NULL\<close> assigned to
  \<^verbatim>\<open>score INTEGER NOT NULL\<close>.
\<close>

definition out_of_range :: "assignments \<Rightarrow> member \<Rightarrow> bool" where
  "out_of_range a m =
     ((case set_score a of None \<Rightarrow> False | Some e \<Rightarrow> \<not> int4_opt (e m)) \<or>
      (case set_rank a of None \<Rightarrow> False | Some e \<Rightarrow> \<not> int4_opt (e m)))"

definition null_score :: "assignments \<Rightarrow> member \<Rightarrow> bool" where
  "null_score a m = (case set_score a of None \<Rightarrow> False | Some e \<Rightarrow> e m = None)"

text \<open>
  The statement itself, with the constraints of the schema. Of the errors that apply,
  the one of a value comes first (the value is checked when the row is formed), then
  \<^verbatim>\<open>NOT NULL\<close>, then the key. An updated row is written anew: a scan finds it after the
  rows that the statement left alone.
\<close>

fun apply_stmt :: "timestamptz \<Rightarrow> stmt \<Rightarrow> member list \<Rightarrow> db_error + member list" where
  "apply_stmt now (Insert rows) tbl =
     (if list_ex (\<lambda>r. \<not> int4_opt (nr_score r) \<or> \<not> int4_opt (nr_rank r)) rows
      then Inl numeric_value_out_of_range
      else if list_ex (\<lambda>r. nr_score r = None) rows
      then Inl not_null_violation
      else if \<not> distinct (map nr_id rows) \<or> list_ex (\<lambda>r. nr_id r \<in> set (map m_id tbl)) rows
      then Inl unique_violation
      else Inr (tbl @ map (mk_row now) rows))"
| "apply_stmt now (Update wh a) tbl =
     (let hit = filter wh tbl;
          tbl' = filter (\<lambda>m. \<not> wh m) tbl @
                 map (\<lambda>m. update_updated_at_column now (assign a m)) hit
      in if list_ex (out_of_range a) hit then Inl numeric_value_out_of_range
         else if list_ex (null_score a) hit then Inl not_null_violation
         else if set_id a \<noteq> None \<and> \<not> distinct (map m_id tbl') then Inl unique_violation
         else Inr tbl')"
| "apply_stmt now (Delete wh) tbl = Inr (filter (\<lambda>m. \<not> wh m) tbl)"

text \<open>
  \<^verbatim>\<open>update_ranks_on_score_change\<close>: \<^verbatim>\<open>AFTER INSERT OR UPDATE OR DELETE ON
  leaderboard_members FOR EACH STATEMENT EXECUTE FUNCTION update_leaderboard_ranks()\<close>.
  The trigger fires once a statement on the table is done, whether or not the statement
  touched a row. The \<^verbatim>\<open>UPDATE\<close> of the trigger function is such a statement: when it is
  done the trigger fires for it, inside the call of the function, and the function
  returns only after that nested call has returned. The schema sets no bound to the
  nesting. The result is the table the trigger leaves when it returns; \<open>None\<close>: it does
  not return.
\<close>

partial_function (option)
  update_ranks_on_score_change :: "timestamptz \<Rightarrow> member list \<Rightarrow> member list option" where
  "update_ranks_on_score_change now tbl =
     update_ranks_on_score_change now (update_leaderboard_ranks now tbl)"

text \<open>
  A statement with its trigger, in one transaction: an error undoes both, and the table
  is as it was. A nesting of trigger calls that does not return is ended by the engine
  when its stack is used up, with the error 54001.
\<close>

definition exec_stmt :: "timestamptz \<Rightarrow> stmt \<Rightarrow> member list \<Rightarrow> db_error + member list" where
  "exec_stmt now st tbl =
     (case apply_stmt now st tbl of
        Inl e \<Rightarrow> Inl e
      | Inr tbl' \<Rightarrow>
          (case update_ranks_on_score_change now tbl' of
             None \<Rightarrow> Inl statement_too_complex
           | Some t \<Rightarrow> Inr t))"

text \<open>
  The statement at the end of the migration script, \<^verbatim>\<open>INSERT INTO
  public.leaderboard_members (name, score, avatar_url) VALUES ...\<close>, with the keys 1 to 8
  for those that \<^verbatim>\<open>gen_random_uuid()\<close> draws.
\<close>

definition sample_data :: "new_row list" where
  "sample_data =
     [\<lparr>nr_id = 1, nr_name = ''Jordyn Kenter'', nr_score = Some 96239,
       nr_avatar_url = Some ''https://images.unsplash.com/photo-1507003211169-0a1dd7228f2d?w=150&h=150&fit=crop&crop=face'',
       nr_rank = None, nr_created_at = None\<rparr>,
      \<lparr>nr_id = 2, nr_name = ''Alena Bator'', nr_score = Some 84787,
       nr_avatar_url = Some ''https://images.unsplash.com/photo-1494790108755-2616b2e17c86?w=150&h=150&fit=crop&crop=face'',
       nr_rank = None, nr_created_at = None\<rparr>,
      \<lparr>nr_id = 3, nr_name = ''Carl Oliver'', nr_score = Some 82139,
       nr_avatar_url = Some ''https://images.unsplash.com/photo-1472099645785-5658abf4ff4e?w=150&h=150&fit=crop&crop=face'',
       nr_rank = None, nr_created_at = None\<rparr>,
      \<lparr>nr_id = 4, nr_name = ''Davis Curtis'', nr_score = Some 80857,
       nr_avatar_url = Some ''https://images.unsplash.com/photo-1500648767791-00dcc994a43e?w=150&h=150&fit=crop&crop=face'',
       nr_rank = None, nr_created_at = None\<rparr>,
      \<lparr>nr_id = 5, nr_name = ''Isona Othid'', nr_score = Some 76128,
       nr_avatar_url = Some ''https://images.unsplash.com/photo-1438761681033-6461ffad8d80?w=150&h=150&fit=crop&crop=face'',
       nr_rank = None, nr_created_at = None\<rparr>,
      \<lparr>nr_id = 6, nr_name = ''Makenna George'', nr_score = Some 71667,
       nr_avatar_url = Some ''https://images.unsplash.com/photo-1463453091185-61582044d556?w=150&h=150&fit=crop&crop=face'',
       nr_rank = None, nr_created_at = None\<rparr>,
      \<lparr>nr_id = 7, nr_name = ''Kianna Batista'', nr_score = Some 68439,
       nr_avatar_url = Some ''https://images.unsplash.com/photo-1502685104226-ee32379fefbe?w=150&h=150&fit=crop&crop=face'',
       nr_rank = None, nr_created_at = None\<rparr>,
      \<lparr>nr_id = 8, nr_name = ''Maxith Cullen'', nr_score = Some 66981,
       nr_avatar_url = Some ''https://images.unsplash.com/photo-1519345182560-3f2917c472ef?w=150&h=150&fit=crop&crop=face'',
       nr_rank = None, nr_created_at = None\<rparr>]"

text \<open>\<^verbatim>\<open>id UUID PRIMARY KEY\<close>\<close>

definition pk_ok :: "member list \<Rightarrow> bool" where
  "pk_ok tbl = distinct (map m_id tbl)"

text \<open>The rank invariant: the ranks are 1..N, each once.\<close>

definition ranks_contiguous :: "member list \<Rightarrow> bool" where
  "ranks_contiguous tbl =
     (mset (map rank tbl) = mset (map (\<lambda>i. Some (int i)) [1..<Suc (length tbl)]))"

text \<open>Row \<open>a\<close> comes strictly before row \<open>b\<close>: higher score, or same score and created earlier.\<close>

definition precedes :: "member \<Rightarrow> member \<Rightarrow> bool" where
  "precedes a b = (score b < score a \<or> (score a = score b \<and> created_at a < created_at b))"

definition rank_lt :: "member \<Rightarrow> member \<Rightarrow> bool" where
  "rank_lt a b =
     (case rank a of None \<Rightarrow> False
      | Some x \<Rightarrow> (case rank b of None \<Rightarrow> False | Some y \<Rightarrow> x < y))"

definition ranks_follow_order :: "member list \<Rightarrow> bool" where
  "ranks_follow_order tbl =
     list_all (\<lambda>a. list_all (\<lambda>b. \<not> precedes a b \<or> rank_lt a b) tbl) tbl"

section \<open>Numbers\<close>

text \<open>
  A number of the client, as far as \<^verbatim>\<open>parseInt\<close> can give one: \<^verbatim>\<open>NaN\<close>, an integer that a
  double represents, or an infinity. The two zeros are one here: both are falsy, and
  both are written \<^verbatim>\<open>0\<close> in the body of a request.
\<close>

datatype number = NaN | Num int | Infinity | MinusInfinity

definition isNaN :: "number \<Rightarrow> bool" where
  "isNaN x = (x = NaN)"

text \<open>The number of binary digits of \<open>n\<close>.\<close>

fun bit_length :: "nat \<Rightarrow> nat" where
  "bit_length n = (if n = 0 then 0 else Suc (bit_length (n div 2)))"

declare bit_length.simps [simp del]

text \<open>
  The double nearest to a natural number: the number itself below \<open>2^53\<close>, beyond that
  the nearest number with 53 significant binary digits, the even one of two that are
  equally near.
\<close>

definition round_to_double :: "nat \<Rightarrow> nat" where
  "round_to_double n =
     (if n < 2 ^ 53 then n
      else (let k = bit_length n - 53;
                q = n div 2 ^ k;
                r = n mod 2 ^ k;
                h = 2 ^ (k - 1)
            in (if h < r \<or> (r = h \<and> odd q) then q + 1 else q) * 2 ^ k))"

text \<open>The number for \<open>sign * n\<close>: what rounds to \<open>2^1024\<close> is an infinity.\<close>

definition to_number :: "int \<Rightarrow> nat \<Rightarrow> number" where
  "to_number sign n =
     (let d = round_to_double n
      in if d < 2 ^ 1024 then Num (sign * int d)
         else if sign < 0 then MinusInfinity else Infinity)"

text \<open>
  A number on its way into an \<^verbatim>\<open>INTEGER\<close> column. The body of a request is written by
  \<^verbatim>\<open>JSON.stringify\<close>: \<^verbatim>\<open>NaN\<close> and the infinities become \<^verbatim>\<open>null\<close>, an integer below \<open>10^21\<close>
  its decimal digits, a larger one a text with an exponent, which the server does not
  read as an integer. \<open>Inr None\<close> is \<^verbatim>\<open>NULL\<close>.
\<close>

definition json_integer :: "number \<Rightarrow> db_error + int option" where
  "json_integer x =
     (case x of
        NaN \<Rightarrow> Inr None
      | Infinity \<Rightarrow> Inr None
      | MinusInfinity \<Rightarrow> Inr None
      | Num n \<Rightarrow>
          if 10 ^ 21 \<le> abs n then Inl invalid_text_representation
          else if int4 n then Inr (Some n)
          else Inl numeric_value_out_of_range)"

section \<open>The data access client\<close>

text \<open>
  The requests the two components send for \<^verbatim>\<open>leaderboard_members\<close>:
  \<^verbatim>\<open>.select('*').order('score', { ascending: false })\<close>,
  \<^verbatim>\<open>.insert([{ name, score, avatar_url, rank }])\<close>,
  \<^verbatim>\<open>.update({ rank }).eq('id', id)\<close>,
  \<^verbatim>\<open>.update({ name, score, avatar_url }).eq('id', id)\<close> and
  \<^verbatim>\<open>.delete().eq('id', id)\<close>.
\<close>

datatype request =
  SelectMembers
| InsertMember string number "string option" int
| UpdateRank uuid int
| UpdateMember uuid string number "string option"
| DeleteMember uuid

text \<open>
  The server as the client sees it: the table, the clock behind \<^verbatim>\<open>now()\<close>, the next key
  of \<^verbatim>\<open>gen_random_uuid()\<close>, and the requests received so far (oldest first). The clock
  ticks and the key supply moves on with every write that goes through.
\<close>

record world =
  leaderboard_members :: "member list"
  clock :: timestamptz
  next_uuid :: uuid
  reqs :: "request list"

text \<open>
  Whether a request is answered is not decided by the program: \<open>fails n\<close> says that the
  request number \<open>n\<close> (counted from 0 over the whole session) comes back with an error
  and without effect, be it for the network or for a policy of the database. The panel
  is shown to admins only, whom the policies let write.
\<close>

type_synonym network = "nat \<Rightarrow> bool"

text \<open>
  \<^verbatim>\<open>ORDER BY score DESC\<close>: rows with equal scores come in no promised order; the model
  returns them in scan order.
\<close>

definition order_by_score_desc :: "member list \<Rightarrow> member list" where
  "order_by_score_desc rows = sort_key (\<lambda>m. - score m) rows"

text \<open>
  The statement of a request: none for the query; for a write, the statement, or the
  error of a score in the body that is no \<^verbatim>\<open>INTEGER\<close>. A rank in a request is the length of
  a list or an index of it plus one, a number that is written as it is.
\<close>

definition stmt_of :: "uuid \<Rightarrow> request \<Rightarrow> (db_error + stmt) option" where
  "stmt_of fresh rq =
     (case rq of
        SelectMembers \<Rightarrow> None
      | InsertMember n s a r \<Rightarrow>
          Some (case json_integer s of
                  Inl e \<Rightarrow> Inl e
                | Inr v \<Rightarrow>
                    Inr (Insert [\<lparr>nr_id = fresh, nr_name = n, nr_score = v, nr_avatar_url = a,
                                  nr_rank = Some r, nr_created_at = None\<rparr>]))
      | UpdateRank i r \<Rightarrow>
          Some (Inr (Update (\<lambda>m. m_id m = i)
                  \<lparr>set_id = None, set_name = None, set_score = None, set_avatar_url = None,
                   set_rank = Some (\<lambda>m. Some r), set_created_at = None\<rparr>))
      | UpdateMember i n s a \<Rightarrow>
          Some (case json_integer s of
                  Inl e \<Rightarrow> Inl e
                | Inr v \<Rightarrow>
                    Inr (Update (\<lambda>m. m_id m = i)
                          \<lparr>set_id = None, set_name = Some (\<lambda>m. n), set_score = Some (\<lambda>m. v),
                           set_avatar_url = Some (\<lambda>m. a), set_rank = None,
                           set_created_at = None\<rparr>))
      | DeleteMember i \<Rightarrow> Some (Inr (Delete (\<lambda>m. m_id m = i))))"

text \<open>
  One round trip. The answer is \<^verbatim>\<open>{ data, error }\<close>: \<open>Inl\<close> the error, \<open>Inr\<close> the data
  (no rows for a write, which asks for none). Each write is a transaction of its own.
\<close>

definition db_request :: "network \<Rightarrow> request \<Rightarrow> world \<Rightarrow> (db_error + member list) \<times> world" where
  "db_request fails rq w =
     (let w1 = w\<lparr>reqs := reqs w @ [rq]\<rparr>
      in if fails (length (reqs w)) then (Inl request_failed, w1)
         else (case stmt_of (next_uuid w) rq of
                 None \<Rightarrow> (Inr (order_by_score_desc (leaderboard_members w)), w1)
               | Some (Inl e) \<Rightarrow> (Inl e, w1)
               | Some (Inr st) \<Rightarrow>
                   (case exec_stmt (clock w) st (leaderboard_members w) of
                      Inl e \<Rightarrow> (Inl e, w1)
                    | Inr t \<Rightarrow>
                        (Inr [], w1\<lparr>leaderboard_members := t, clock := Suc (clock w),
                                    next_uuid := Suc (next_uuid w)\<rparr>))))"

section \<open>\<^verbatim>\<open>parseInt\<close>\<close>

text \<open>
  \<^verbatim>\<open>parseInt(string)\<close> without a radix, as ECMAScript defines it. A string is its
  sequence of code units below 256. The value is the number for the integer that the
  digits denote.
\<close>

definition StrWhiteSpaceChar :: "char \<Rightarrow> bool" where
  "StrWhiteSpaceChar c = (of_char c \<in> {9, 10, 11, 12, 13, 32, 160 :: nat})"

definition digit_value :: "nat \<Rightarrow> char \<Rightarrow> nat option" where
  "digit_value R c =
     (let n = (of_char c :: nat);
          v = (if 48 \<le> n \<and> n \<le> 57 then n - 48
               else if 97 \<le> n \<and> n \<le> 122 then n - 87
               else if 65 \<le> n \<and> n \<le> 90 then n - 55
               else 36)
      in if v < R then Some v else None)"

definition parseInt :: "string \<Rightarrow> number" where
  "parseInt inputString =
     (let S = dropWhile StrWhiteSpaceChar inputString;
          sign = (if S \<noteq> [] \<and> hd S = CHR ''-'' then - 1 else (1::int));
          S1 = (if S \<noteq> [] \<and> (hd S = CHR ''+'' \<or> hd S = CHR ''-'') then tl S else S);
          hex = (case S1 of
                   a # b # _ \<Rightarrow> a = CHR ''0'' \<and> (b = CHR ''x'' \<or> b = CHR ''X'')
                 | _ \<Rightarrow> False);
          R = (if hex then 16 else 10);
          S2 = (if hex then drop 2 S1 else S1);
          Z = takeWhile (\<lambda>c. digit_value R c \<noteq> None) S2
      in if Z = [] then NaN
         else to_number sign (foldl (\<lambda>n c. n * R + the (digit_value R c)) 0 Z))"

text \<open>\<^verbatim>\<open>x || 0\<close> on a number, \<^verbatim>\<open>s || null\<close> and \<^verbatim>\<open>s || ""\<close> on a string.\<close>

definition or_zero :: "number \<Rightarrow> number" where
  "or_zero x = (case x of NaN \<Rightarrow> Num 0 | Num n \<Rightarrow> if n = 0 then Num 0 else Num n
                | Infinity \<Rightarrow> Infinity | MinusInfinity \<Rightarrow> MinusInfinity)"

definition or_null :: "string \<Rightarrow> string option" where
  "or_null s = (if s = [] then None else Some s)"

definition or_empty :: "string option \<Rightarrow> string" where
  "or_empty s = (case s of None \<Rightarrow> [] | Some v \<Rightarrow> v)"

section \<open>A field for numbers\<close>

text \<open>
  Both score fields of the admin panel are \<^verbatim>\<open><Input type="number">\<close>. What a handler reads
  in \<^verbatim>\<open>e.target.value\<close> is the value of the field, which for a field of this type is
  sanitized: the entry of the user when it is a valid floating-point number (an optional
  \<^verbatim>\<open>-\<close>, then digits, or \<^verbatim>\<open>.\<close> and digits, or both, then optionally \<^verbatim>\<open>e\<close> or \<^verbatim>\<open>E\<close>, an
  optional sign and digits), the empty string otherwise.
\<close>

definition is_digit :: "char \<Rightarrow> bool" where
  "is_digit c = (48 \<le> (of_char c :: nat) \<and> (of_char c :: nat) \<le> 57)"

definition valid_floating_point_number :: "string \<Rightarrow> bool" where
  "valid_floating_point_number s =
     (let s1 = (if s \<noteq> [] \<and> hd s = CHR ''-'' then tl s else s);
          ip = takeWhile is_digit s1;
          r1 = dropWhile is_digit s1;
          has_frac = (r1 \<noteq> [] \<and> hd r1 = CHR ''.'');
          fp = (if has_frac then takeWhile is_digit (tl r1) else []);
          r2 = (if has_frac then dropWhile is_digit (tl r1) else r1);
          has_exp = (r2 \<noteq> [] \<and> (hd r2 = CHR ''e'' \<or> hd r2 = CHR ''E''));
          r3 = (if has_exp then tl r2 else r2);
          r4 = (if has_exp \<and> r3 \<noteq> [] \<and> (hd r3 = CHR ''-'' \<or> hd r3 = CHR ''+'')
                then tl r3 else r3)
      in (if has_frac then fp \<noteq> [] else ip \<noteq> []) \<and>
         (if has_exp then r4 \<noteq> [] \<and> list_all is_digit r4 else r2 = []))"

definition number_input_value :: "string \<Rightarrow> string" where
  "number_input_value entry = (if valid_floating_point_number entry then entry else [])"

section \<open>The admin panel\<close>

record toast =
  title :: string
  description :: string
  variant :: string

record EditingMember =
  em_id :: uuid
  em_name :: string
  em_score :: number
  em_avatar_url :: string

record NewMember =
  nm_name :: string
  nm_score :: string
  nm_avatar_url :: string

text \<open>
  The component's state: the five \<^verbatim>\<open>useState\<close> cells, and the toasts shown so far. A
  handler reads the state of the render it was created in and returns the state after
  its updates.
\<close>

record AdminPanel =
  members :: "member list"
  loading :: bool
  editingMember :: "EditingMember option"
  newMember :: NewMember
  isAddDialogOpen :: bool
  toasts :: "toast list"

definition show_toast :: "string \<Rightarrow> string \<Rightarrow> string \<Rightarrow> AdminPanel \<Rightarrow> AdminPanel" where
  "show_toast t d v st = st\<lparr>toasts := toasts st @ [\<lparr>title = t, description = d, variant = v\<rparr>]\<rparr>"

definition fetchMembers :: "network \<Rightarrow> AdminPanel \<Rightarrow> world \<Rightarrow> AdminPanel \<times> world" where
  "fetchMembers fails st w =
     (case db_request fails SelectMembers w of
        (Inr data, w') \<Rightarrow> (st\<lparr>members := data, loading := False\<rparr>, w')
      | (Inl e, w') \<Rightarrow>
          ((show_toast ''Error'' ''Failed to fetch leaderboard members'' ''destructive'' st)
             \<lparr>loading := False\<rparr>, w'))"

text \<open>
  The loop of \<^verbatim>\<open>updateRanks\<close>: \<open>ms\<close> is what is left of \<^verbatim>\<open>sortedMembers\<close> from index \<open>i\<close> on.
  An error ends the loop (\<^verbatim>\<open>throw error\<close>).
\<close>

fun rank_loop :: "network \<Rightarrow> member list \<Rightarrow> nat \<Rightarrow> world \<Rightarrow> db_error option \<times> world" where
  "rank_loop fails [] i w = (None, w)"
| "rank_loop fails (m # ms) i w =
     (case db_request fails (UpdateRank (m_id m) (int i + 1)) w of
        (Inl e, w') \<Rightarrow> (Some e, w')
      | (Inr _, w') \<Rightarrow> rank_loop fails ms (Suc i) w')"

text \<open>
  \<^verbatim>\<open>[...members].sort((a, b) => b.score - a.score)\<close>: the sort of an array is stable, so
  members with equal scores keep the order they were loaded in.
\<close>

definition sortedMembers :: "member list \<Rightarrow> member list" where
  "sortedMembers ms = sort_key (\<lambda>m. - score m) ms"

definition updateRanks :: "network \<Rightarrow> AdminPanel \<Rightarrow> world \<Rightarrow> AdminPanel \<times> world" where
  "updateRanks fails st w =
     (case rank_loop fails (sortedMembers (members st)) 0 w of
        (Some e, w') \<Rightarrow> (st, w')
      | (None, w') \<Rightarrow> fetchMembers fails st w')"

text \<open>
  The fields of the add dialog: the \<^verbatim>\<open>onChange\<close> of the name and of the score, each with
  the value of its field, and \<^verbatim>\<open>setIsAddDialogOpen\<close>, which the dialog calls when it opens
  or closes.
\<close>

definition onChangeNewName :: "string \<Rightarrow> AdminPanel \<Rightarrow> AdminPanel" where
  "onChangeNewName v st = st\<lparr>newMember := (newMember st)\<lparr>nm_name := v\<rparr>\<rparr>"

definition onChangeNewScore :: "string \<Rightarrow> AdminPanel \<Rightarrow> AdminPanel" where
  "onChangeNewScore v st = st\<lparr>newMember := (newMember st)\<lparr>nm_score := v\<rparr>\<rparr>"

definition setIsAddDialogOpen :: "bool \<Rightarrow> AdminPanel \<Rightarrow> AdminPanel" where
  "setIsAddDialogOpen b st = st\<lparr>isAddDialogOpen := b\<rparr>"

definition handleAddMember :: "network \<Rightarrow> AdminPanel \<Rightarrow> world \<Rightarrow> AdminPanel \<times> world" where
  "handleAddMember fails st w =
     (let parsed = parseInt (nm_score (newMember st))
      in if isNaN parsed
         then (show_toast ''Invalid Score'' ''Please enter a valid number for the score''
                 ''destructive'' st, w)
         else (case db_request fails
                      (InsertMember (nm_name (newMember st)) parsed
                         (or_null (nm_avatar_url (newMember st)))
                         (int (length (members st)) + 1)) w of
                 (Inl e, w') \<Rightarrow>
                   (show_toast ''Error'' ''Failed to add member'' ''destructive'' st, w')
               | (Inr _, w') \<Rightarrow>
                   (case updateRanks fails st w' of
                      (st', w'') \<Rightarrow>
                        (show_toast ''Success'' ''Member added successfully!'' ''default''
                           (st'\<lparr>newMember := \<lparr>nm_name = [], nm_score = [], nm_avatar_url = []\<rparr>,
                                isAddDialogOpen := False\<rparr>), w''))))"

definition handleEditMember :: "member \<Rightarrow> AdminPanel \<Rightarrow> AdminPanel" where
  "handleEditMember m st =
     st\<lparr>editingMember := Some \<lparr>em_id = m_id m, em_name = m_name m, em_score = Num (score m),
                                em_avatar_url = or_empty (avatar_url m)\<rparr>\<rparr>"

text \<open>
  The \<^verbatim>\<open>onChange\<close> of the score field of the row being edited, with the value of the
  field: \<^verbatim>\<open>setEditingMember({ ...editingMember, score: parseInt(e.target.value) || 0 })\<close>.
  The field is rendered only while a member is being edited.
\<close>

definition onChangeEditScore :: "string \<Rightarrow> AdminPanel \<Rightarrow> AdminPanel" where
  "onChangeEditScore v st =
     (case editingMember st of
        None \<Rightarrow> st
      | Some em \<Rightarrow> st\<lparr>editingMember := Some (em\<lparr>em_score := or_zero (parseInt v)\<rparr>)\<rparr>)"

definition handleSaveEdit :: "network \<Rightarrow> AdminPanel \<Rightarrow> world \<Rightarrow> AdminPanel \<times> world" where
  "handleSaveEdit fails st w =
     (case editingMember st of
        None \<Rightarrow> (st, w)
      | Some em \<Rightarrow>
          (case db_request fails
                  (UpdateMember (em_id em) (em_name em) (em_score em)
                     (or_null (em_avatar_url em))) w of
             (Inl e, w') \<Rightarrow>
               (show_toast ''Error'' ''Failed to update member'' ''destructive'' st, w')
           | (Inr _, w') \<Rightarrow>
               (case updateRanks fails st w' of
                  (st', w'') \<Rightarrow>
                    (show_toast ''Success'' ''Member updated successfully!'' ''default''
                       (st'\<lparr>editingMember := None\<rparr>), w''))))"

definition handleDeleteMember :: "network \<Rightarrow> uuid \<Rightarrow> AdminPanel \<Rightarrow> world \<Rightarrow> AdminPanel \<times> world" where
  "handleDeleteMember fails i st w =
     (case db_request fails (DeleteMember i) w of
        (Inl e, w') \<Rightarrow>
          (show_toast ''Error'' ''Failed to delete member'' ''destructive'' st, w')
      | (Inr _, w') \<Rightarrow>
          (case updateRanks fails st w' of
             (st', w'') \<Rightarrow>
               (show_toast ''Success'' ''Member deleted successfully!'' ''default'' st', w'')))"

section \<open>The leaderboard view\<close>

record Leaderboard =
  lb_members :: "member list"
  lb_loading :: bool
  lb_isAdmin :: bool

text \<open>
  \<^verbatim>\<open>(data || []).map((member, idx) => ({ ...member, rank: idx + 1 }))\<close>; \<open>idx\<close> is the
  index of the first row of \<open>ms\<close>.
\<close>

fun rankedMembers :: "nat \<Rightarrow> member list \<Rightarrow> member list" where
  "rankedMembers idx [] = []"
| "rankedMembers idx (m # ms) = m\<lparr>rank := Some (int idx + 1)\<rparr> # rankedMembers (Suc idx) ms"

definition fetchLeaderboard :: "network \<Rightarrow> Leaderboard \<Rightarrow> world \<Rightarrow> Leaderboard \<times> world" where
  "fetchLeaderboard fails st w =
     (case db_request fails SelectMembers w of
        (Inr data, w') \<Rightarrow> (st\<lparr>lb_members := rankedMembers 0 data, lb_loading := False\<rparr>, w')
      | (Inl e, w') \<Rightarrow> (st\<lparr>lb_loading := False\<rparr>, w'))"

text \<open>\<^verbatim>\<open>members.slice(0, 3)\<close> and \<^verbatim>\<open>members.slice(3)\<close>\<close>

definition topThree :: "Leaderboard \<Rightarrow> member list" where
  "topThree st = take 3 (lb_members st)"

definition remaining :: "Leaderboard \<Rightarrow> member list" where
  "remaining st = drop 3 (lb_members st)"

text \<open>
  What is rendered, in document order, each member with the rank shown beside it: the
  podium cards (second, first, third place) show their \<^verbatim>\<open>position\<close>, the rows below show
  \<^verbatim>\<open>member.rank\<close>.
\<close>

definition podium_cards :: "Leaderboard \<Rightarrow> (member \<times> int option) list" where
  "podium_cards st =
     (let t = topThree st
      in (if 1 < length t then [(t ! 1, Some 2)] else []) @
         (if 0 < length t then [(t ! 0, Some 1)] else []) @
         (if 2 < length t then [(t ! 2, Some 3)] else []))"

definition leaderboard_rows :: "Leaderboard \<Rightarrow> (member \<times> int option) list" where
  "leaderboard_rows st = map (\<lambda>m. (m, rank m)) (remaining st)"

section \<open>The admin check\<close>

text \<open>
  How a query ends: with \<^verbatim>\<open>{ data, error }\<close>, or with an exception. \<^verbatim>\<open>.single()\<close>
  answers with the row when exactly one matches and with an error otherwise.
\<close>

datatype 'a query_result = Returned "'a option" "db_error option" | Threw

datatype link = Up | Down | Broken

text \<open>
  \<^verbatim>\<open>.from('user_roles').select('role').eq('user_id', id).eq('role', 'admin').single()\<close>
\<close>

definition select_admin_role :: "link \<Rightarrow> user_role list \<Rightarrow> uuid \<Rightarrow> app_role query_result" where
  "select_admin_role net roles uid =
     (case net of
        Broken \<Rightarrow> Threw
      | Down \<Rightarrow> Returned None (Some request_failed)
      | Up \<Rightarrow>
          (case filter (\<lambda>r. ur_user_id r = uid \<and> ur_role r = admin) roles of
             [r] \<Rightarrow> Returned (Some (ur_role r)) None
           | _ \<Rightarrow> Returned None (Some not_a_single_row)))"

text \<open>The schema's \<^verbatim>\<open>has_role(_user_id, _role)\<close>.\<close>

definition has_role :: "user_role list \<Rightarrow> uuid \<Rightarrow> app_role \<Rightarrow> bool" where
  "has_role roles uid r = list_ex (\<lambda>x. ur_user_id x = uid \<and> ur_role x = r) roles"

text \<open>The page behind the admin route.\<close>

record Admin =
  pg_user :: "uuid option"
  pg_isAdmin :: bool
  pg_loading :: bool
  pg_toasts :: "toast list"

definition access_denied :: "Admin \<Rightarrow> Admin" where
  "access_denied st =
     st\<lparr>pg_isAdmin := False,
        pg_toasts := pg_toasts st @
          [\<lparr>title = ''Access Denied'',
            description = ''You don't have admin privileges to access this page.'',
            variant = ''destructive''\<rparr>]\<rparr>"

text \<open>\<^verbatim>\<open>checkAdminStatus\<close> of the admin page.\<close>

definition checkAdminStatus :: "link \<Rightarrow> user_role list \<Rightarrow> uuid option \<Rightarrow> Admin \<Rightarrow> Admin" where
  "checkAdminStatus net roles currentUser st =
     (case currentUser of
        None \<Rightarrow> st
      | Some u \<Rightarrow>
          (case select_admin_role net roles u of
             Returned (Some d) e \<Rightarrow> st\<lparr>pg_isAdmin := True\<rparr>
           | Returned None e \<Rightarrow> access_denied st
           | Threw \<Rightarrow> access_denied st))"

text \<open>
  \<^verbatim>\<open>checkAdminStatus\<close> of the leaderboard view; \<open>session\<close> is what \<^verbatim>\<open>getUser()\<close> answers.
\<close>

definition checkAdminStatus_lb ::
    "link \<Rightarrow> user_role list \<Rightarrow> uuid option \<Rightarrow> Leaderboard \<Rightarrow> Leaderboard" where
  "checkAdminStatus_lb net roles session st =
     (case session of
        None \<Rightarrow> st
      | Some u \<Rightarrow>
          (case select_admin_role net roles u of
             Returned (Some d) e \<Rightarrow> st\<lparr>lb_isAdmin := True\<rparr>
           | Returned None e \<Rightarrow> st
           | Threw \<Rightarrow> st))"

section \<open>Signing up\<close>

text \<open>
  The row of \<^verbatim>\<open>auth.users\<close> that the trigger reads: \<^verbatim>\<open>NEW.id\<close>, \<^verbatim>\<open>NEW.email\<close> and
  \<^verbatim>\<open>NEW.raw_user_meta_data ->> 'full_name'\<close>. The table belongs to the identity
  provider; only these columns matter here.
\<close>

record auth_user =
  au_id :: uuid
  au_email :: "string option"
  au_full_name :: "string option"

record database =
  auth_users :: "auth_user list"
  profiles :: "profile list"
  user_roles :: "user_role list"

definition COALESCE :: "'a option \<Rightarrow> 'a option \<Rightarrow> 'a option" where
  "COALESCE a b = (case a of None \<Rightarrow> b | Some v \<Rightarrow> Some v)"

text \<open>
  \<^verbatim>\<open>handle_new_user\<close>: two inserts, each under the constraints of its table
  (\<^verbatim>\<open>id UUID PRIMARY KEY\<close> and \<^verbatim>\<open>email TEXT NOT NULL\<close> for a profile, the primary key and
  \<^verbatim>\<open>UNIQUE (user_id, role)\<close> for a role). \<open>fresh\<close> is the key \<^verbatim>\<open>gen_random_uuid()\<close> draws.
\<close>

definition handle_new_user ::
    "timestamptz \<Rightarrow> uuid \<Rightarrow> auth_user \<Rightarrow> database \<Rightarrow> db_error + database" where
  "handle_new_user now fresh NEW db =
     (if au_id NEW \<in> set (map p_id (profiles db)) then Inl unique_violation
      else (case au_email NEW of
              None \<Rightarrow> Inl not_null_violation
            | Some email \<Rightarrow>
                (let db1 = db\<lparr>profiles := profiles db @
                             [\<lparr>p_id = au_id NEW, p_email = email,
                               p_full_name = COALESCE (au_full_name NEW) (au_email NEW),
                               p_role = user, p_created_at = now, p_updated_at = now\<rparr>]\<rparr>
                 in if fresh \<in> set (map ur_id (user_roles db1)) \<or>
                       list_ex (\<lambda>r. ur_user_id r = au_id NEW \<and> ur_role r = user)
                         (user_roles db1)
                    then Inl unique_violation
                    else Inr (db1\<lparr>user_roles := user_roles db1 @
                                [\<lparr>ur_id = fresh, ur_user_id = au_id NEW, ur_role = user\<rparr>]\<rparr>))))"

text \<open>
  A signup: the insert into \<^verbatim>\<open>auth.users\<close>, then \<^verbatim>\<open>on_auth_user_created\<close>
  (\<^verbatim>\<open>AFTER INSERT ... FOR EACH ROW\<close>) in the same transaction. An error anywhere undoes
  the whole signup: there is no new database then.
\<close>

definition sign_up :: "timestamptz \<Rightarrow> uuid \<Rightarrow> auth_user \<Rightarrow> database \<Rightarrow> db_error + database" where
  "sign_up now fresh NEW db =
     (if au_id NEW \<in> set (map au_id (auth_users db)) then Inl unique_violation
      else handle_new_user now fresh NEW (db\<lparr>auth_users := auth_users db @ [NEW]\<rparr>))"

text \<open>
  \<^verbatim>\<open>REFERENCES auth.users(id) ON DELETE CASCADE\<close>: a profile and a role belong to a user
  that exists.
\<close>

definition fk_ok :: "database \<Rightarrow> bool" where
  "fk_ok db =
     (set (map p_id (profiles db)) \<subseteq> set (map au_id (auth_users db)) \<and>
      set (map ur_user_id (user_roles db)) \<subseteq> set (map au_id (auth_users db)))"

section \<open>Initial states and orders\<close>

text \<open>The initial values of the \<^verbatim>\<open>useState\<close> cells of the three components.\<close>

definition Leaderboard_init :: Leaderboard where
  "Leaderboard_init = \<lparr>lb_members = [], lb_loading = True, lb_isAdmin = False\<rparr>"

definition AdminPanel_init :: AdminPanel where
  "AdminPanel_init =
     \<lparr>members = [], loading = True, editingMember = None,
      newMember = \<lparr>nm_name = [], nm_score = [], nm_avatar_url = []\<rparr>,
      isAddDialogOpen = False, toasts = []\<rparr>"

definition Admin_init :: Admin where
  "Admin_init = \<lparr>pg_user = None, pg_isAdmin = False, pg_loading = True, pg_toasts = []\<rparr>"

text \<open>A network on which every request is answered.\<close>

definition reliable :: network where
  "reliable n = False"

text \<open>A network on which the request number \<open>k\<close> fails and every other is answered.\<close>

definition drops :: "nat \<Rightarrow> network" where
  "drops k n = (n = k)"

text \<open>A row without an avatar, created and last updated at \<open>t\<close>; the examples are built from it.\<close>

definition row :: "uuid \<Rightarrow> string \<Rightarrow> int \<Rightarrow> int option \<Rightarrow> timestamptz \<Rightarrow> member" where
  "row i n s r t =
     \<lparr>m_id = i, m_name = n, score = s, avatar_url = None, rank = r, created_at = t,
      updated_at = t\<rparr>"

text \<open>A list of members in descending order of score.\<close>

definition score_descending :: "member list \<Rightarrow> bool" where
  "score_descending ms = sorted_wrt (\<lambda>a b. score b \<le> score a) ms"

text \<open>
  A list of members in descending order of score, those of equal score in ascending
  order of creation time.
\<close>

definition score_then_created :: "member list \<Rightarrow> bool" where
  "score_then_created ms = sorted_wrt (\<lambda>a b. \<not> precedes b a) ms"

section \<open>One run of the rank function\<close>

lemma insort_key_map_same:
  assumes "\<And>y. f (g y) = f y"
  shows "insort_key f (g x) (map g xs) = map g (insort_key f x xs)"
  by (induction xs) (simp_all add: assms)

lemma sort_key_map_same:
  assumes "\<And>y. f (g y) = f y"
  shows "sort_key f (map g xs) = map g (sort_key f xs)"
  by (induction xs) (simp_all add: insort_key_map_same[of f g, OF assms])

lemma precedes_iff_key: "precedes a b \<longleftrightarrow> rank_key a < rank_key b"
  by (auto simp: precedes_def rank_key_def)

lemma ranked_lookup:
  assumes "pk_ok tbl" "i < length tbl"
  shows "map_of (ranked tbl) (m_id (sort_key rank_key tbl ! i)) = Some (int (Suc i))"
proof -
  let ?srt = "sort_key rank_key tbl"
  have d: "distinct (map m_id ?srt)"
    using assms(1) by (simp add: pk_ok_def distinct_map)
  have "map_of (zip (map m_id ?srt) (map int [1..<Suc (length ?srt)])) (map m_id ?srt ! i)
        = Some (map int [1..<Suc (length ?srt)] ! i)"
    using d assms(2) by (intro map_of_zip_nth) simp_all
  then show ?thesis using assms(2) by (simp add: ranked_def Let_def del: upt_Suc)
qed

lemma ranked_position:
  assumes "pk_ok tbl" "m \<in> set tbl"
  shows "\<exists>i<length tbl. sort_key rank_key tbl ! i = m \<and> map_of (ranked tbl) (m_id m) = Some (int (Suc i))"
proof -
  from assms(2) have "m \<in> set (sort_key rank_key tbl)" by simp
  then obtain i where i: "i < length (sort_key rank_key tbl)" "sort_key rank_key tbl ! i = m"
    unfolding in_set_conv_nth by blast
  with ranked_lookup[OF assms(1), of i] show ?thesis by auto
qed

lemma rank_after_trigger:
  assumes "pk_ok tbl"
  shows "map rank (update_leaderboard_ranks now tbl) = map (\<lambda>m. map_of (ranked tbl) (m_id m)) tbl"
proof -
  have "rank (case map_of (ranked tbl) (m_id m) of None \<Rightarrow> m
              | Some r \<Rightarrow> update_updated_at_column now (m\<lparr>rank := Some r\<rparr>))
        = map_of (ranked tbl) (m_id m)" if "m \<in> set tbl" for m
    using ranked_position[OF assms that]
    by (auto simp: update_updated_at_column_def)
  then show ?thesis
    by (simp add: update_leaderboard_ranks_def)
qed

lemma ranks_in_sorted_order:
  assumes "pk_ok tbl"
  shows "map (\<lambda>m. map_of (ranked tbl) (m_id m)) (sort_key rank_key tbl)
         = map (\<lambda>i. Some (int i)) [1..<Suc (length tbl)]"
  by (rule nth_equalityI) (simp_all add: ranked_lookup[OF assms] nth_upt del: upt_Suc)

lemma trigger_contiguous:
  assumes "pk_ok tbl"
  shows "ranks_contiguous (update_leaderboard_ranks now tbl)"
proof -
  let ?g = "\<lambda>m. map_of (ranked tbl) (m_id m)"
  have "mset (map ?g tbl) = image_mset ?g (mset (sort_key rank_key tbl))" by simp
  also have "\<dots> = mset (map ?g (sort_key rank_key tbl))" by (simp only: mset_map)
  finally have "mset (map ?g tbl) = mset (map (\<lambda>i. Some (int i)) [1..<Suc (length tbl)])"
    by (simp only: ranks_in_sorted_order[OF assms])
  moreover have "length (update_leaderboard_ranks now tbl) = length tbl"
    by (simp add: update_leaderboard_ranks_def)
  ultimately show ?thesis
    unfolding ranks_contiguous_def by (simp only: rank_after_trigger[OF assms])
qed

lemma trigger_row:
  assumes "pk_ok tbl" "a' \<in> set (update_leaderboard_ranks now tbl)"
  shows "\<exists>i<length tbl. rank a' = Some (int (Suc i)) \<and> rank_key a' = rank_key (sort_key rank_key tbl ! i)"
proof -
  from assms(2) obtain a where a: "a \<in> set tbl"
    and a': "a' = (case map_of (ranked tbl) (m_id a) of None \<Rightarrow> a
                   | Some r \<Rightarrow> update_updated_at_column now (a\<lparr>rank := Some r\<rparr>))"
    by (auto simp: update_leaderboard_ranks_def)
  from ranked_position[OF assms(1) a] obtain i where
    "i < length tbl" "sort_key rank_key tbl ! i = a" "map_of (ranked tbl) (m_id a) = Some (int (Suc i))"
    by blast
  with a' show ?thesis
    by (auto simp: update_updated_at_column_def rank_key_def)
qed

lemma trigger_follows_order:
  assumes "pk_ok tbl"
  shows "ranks_follow_order (update_leaderboard_ranks now tbl)"
proof -
  let ?srt = "sort_key rank_key tbl"
  have srt: "sorted (map rank_key ?srt)" by simp
  { fix a b
    assume a: "a \<in> set (update_leaderboard_ranks now tbl)"
      and b: "b \<in> set (update_leaderboard_ranks now tbl)"
      and p: "precedes a b"
    from trigger_row[OF assms a] obtain i where
      i: "i < length tbl" "rank a = Some (int (Suc i))" "rank_key a = rank_key (?srt ! i)" by blast
    from trigger_row[OF assms b] obtain j where
      j: "j < length tbl" "rank b = Some (int (Suc j))" "rank_key b = rank_key (?srt ! j)" by blast
    have "i < j"
    proof (rule ccontr)
      assume "\<not> i < j"
      then have "j \<le> i" by simp
      with srt i(1) have "map rank_key ?srt ! j \<le> map rank_key ?srt ! i"
        by (intro sorted_nth_mono) simp_all
      with i j \<open>j \<le> i\<close> have "rank_key b \<le> rank_key a" by simp
      with p show False by (simp add: precedes_iff_key)
    qed
    with i j have "rank_lt a b" by (simp add: rank_lt_def)
  }
  then show ?thesis
    unfolding ranks_follow_order_def list_all_iff by blast
qed

text \<open>
  Running the function a second time changes nothing: every nested call of the trigger
  finds the table ranked already, and leaves it as it found it.
\<close>

lemma ranked_map_same:
  assumes "\<And>m. rank_key (g m) = rank_key m" and "\<And>m. m_id (g m) = m_id m"
  shows "ranked (map g t) = ranked t"
proof -
  have "sort_key rank_key (map g t) = map g (sort_key rank_key t)"
    by (rule sort_key_map_same) (rule assms(1))
  moreover have "map m_id (map g xs) = map m_id xs" for xs
    by (simp add: assms(2))
  ultimately show ?thesis
    by (simp only: ranked_def Let_def length_map)
qed

lemma update_leaderboard_ranks_again:
  "update_leaderboard_ranks now (update_leaderboard_ranks now t) = update_leaderboard_ranks now t"
proof -
  define g where "g = (\<lambda>m. case map_of (ranked t) (m_id m) of
                   None \<Rightarrow> m
                 | Some r \<Rightarrow> update_updated_at_column now (m\<lparr>rank := Some r\<rparr>))"
  have t': "update_leaderboard_ranks now t = map g t"
    by (simp add: update_leaderboard_ranks_def g_def)
  have key: "rank_key (g m) = rank_key m" for m
    by (simp add: g_def rank_key_def update_updated_at_column_def split: option.splits)
  have ident: "m_id (g m) = m_id m" for m
    by (simp add: g_def update_updated_at_column_def split: option.splits)
  have same: "ranked (map g t) = ranked t"
    using key ident by (rule ranked_map_same)
  have twice: "(case map_of (ranked t) (m_id (g m)) of
                   None \<Rightarrow> g m
                 | Some r \<Rightarrow> update_updated_at_column now ((g m)\<lparr>rank := Some r\<rparr>)) = g m" for m
    by (simp add: ident) (simp add: g_def update_updated_at_column_def split: option.splits)
  have "update_leaderboard_ranks now (map g t) = map g t"
    unfolding update_leaderboard_ranks_def same
    by (simp add: twice)
  then show ?thesis
    by (simp only: t')
qed

section \<open>The leaderboard view shows positions\<close>

lemma order_by_score_desc_rank_update:
  "order_by_score_desc (map (\<lambda>m. m\<lparr>rank := f m\<rparr>) rows)
   = map (\<lambda>m. m\<lparr>rank := f m\<rparr>) (order_by_score_desc rows)"
  unfolding order_by_score_desc_def
  by (rule sort_key_map_same) simp

lemma rankedMembers_rank:
  "map rank (rankedMembers i ms) = map (\<lambda>k. Some (int k)) [Suc i..<Suc (i + length ms)]"
proof (induction ms arbitrary: i)
  case Nil
  show ?case by simp
next
  case (Cons m ms)
  have "[Suc i..<Suc (i + length (m # ms))] = Suc i # [Suc (Suc i)..<Suc (Suc i + length ms)]"
    by (simp add: upt_conv_Cons del: upt_Suc)
  with Cons.IH[of "Suc i"] show ?case
    by (simp del: upt_Suc)
qed

lemma rankedMembers_overwrites:
  "rankedMembers i (map (\<lambda>m. m\<lparr>rank := f m\<rparr>) ms) = rankedMembers i ms"
  by (induction ms arbitrary: i) simp_all

lemma rankedMembers_length [simp]: "length (rankedMembers i ms) = length ms"
  by (induction ms arbitrary: i) simp_all

lemma rankedMembers_id: "map m_id (rankedMembers i ms) = map m_id ms"
  by (induction ms arbitrary: i) simp_all

lemma rankedMembers_score: "map score (rankedMembers i ms) = map score ms"
  by (induction ms arbitrary: i) simp_all

lemma rankedMembers_created_at: "map created_at (rankedMembers i ms) = map created_at ms"
  by (induction ms arbitrary: i) simp_all

lemma fetchLeaderboard_answered:
  assumes "\<not> fails (length (reqs w))"
  shows "fetchLeaderboard fails st w =
           (st\<lparr>lb_members := rankedMembers 0 (order_by_score_desc (leaderboard_members w)),
               lb_loading := False\<rparr>,
            w\<lparr>reqs := reqs w @ [SelectMembers]\<rparr>)"
  using assms by (simp add: fetchLeaderboard_def db_request_def stmt_of_def)

lemma podium_rows_members:
  "mset (map fst (podium_cards st @ leaderboard_rows st)) = mset (lb_members st)"
proof -
  let ?t = "take 3 (lb_members st)"
  have len: "length ?t \<le> 3" by simp
  have "mset (map fst (podium_cards st)) = mset ?t"
  proof (cases ?t)
    case Nil
    then show ?thesis by (simp add: podium_cards_def topThree_def)
  next
    case (Cons a as)
    note 1 = this
    show ?thesis
    proof (cases as)
      case Nil
      with 1 show ?thesis by (simp add: podium_cards_def topThree_def)
    next
      case (Cons b bs)
      note 2 = this
      show ?thesis
      proof (cases bs)
        case Nil
        with 1 2 show ?thesis by (simp add: podium_cards_def topThree_def)
      next
        case (Cons c cs)
        with 1 2 len have "cs = []" by simp
        with 1 2 Cons show ?thesis by (simp add: podium_cards_def topThree_def)
      qed
    qed
  qed
  moreover have "map fst (leaderboard_rows st) = drop 3 (lb_members st)"
    by (simp add: leaderboard_rows_def remaining_def comp_def)
  moreover have "mset ?t + mset (drop 3 (lb_members st)) = mset (lb_members st)"
    by (metis append_take_drop_id mset_append)
  ultimately show ?thesis by simp
qed


lemma score_descending_iff: "score_descending ms \<longleftrightarrow> sorted (map (\<lambda>m. - score m) ms)"
  by (simp add: score_descending_def sorted_map)

lemma score_then_created_iff: "score_then_created ms \<longleftrightarrow> sorted (map rank_key ms)"
proof -
  have "(\<not> precedes b a) = (rank_key a \<le> rank_key b)" for a b
    by (auto simp: precedes_def rank_key_def)
  then show ?thesis
    by (simp add: score_then_created_def sorted_map)
qed

lemma score_descending_rankedMembers:
  "score_descending (rankedMembers i ms) = score_descending ms"
proof -
  have "map (\<lambda>m. - score m) xs = map uminus (map score xs)" for xs :: "member list"
    by simp
  then show ?thesis
    by (simp only: score_descending_iff rankedMembers_score)
qed

lemma score_descending_order_by: "score_descending (order_by_score_desc rows)"
  by (simp add: score_descending_iff order_by_score_desc_def)

lemma rankedMembers_forget_rank:
  "map (\<lambda>m. m\<lparr>rank := None\<rparr>) (rankedMembers i ms) = map (\<lambda>m. m\<lparr>rank := None\<rparr>) ms"
  by (induction ms arbitrary: i) simp_all

lemma podium_cards_positions:
  assumes "map rank (lb_members st) = map (\<lambda>k. Some (int k)) [1..<Suc (length (lb_members st))]"
  shows "list_all (\<lambda>(m, r). r = rank m) (podium_cards st)"
proof -
  have r: "rank (lb_members st ! k) = Some (int (Suc k))" if "k < length (lb_members st)" for k
  proof -
    from that have "map rank (lb_members st) ! k = Some (int (Suc k))"
      by (simp only: assms) (simp del: upt_Suc)
    with that show ?thesis by simp
  qed
  have t: "take 3 (lb_members st) ! k = lb_members st ! k" if "k < 3" for k
    using that by simp
  show ?thesis
    by (auto simp: podium_cards_def topThree_def Let_def r)
qed

lemma leaderboard_rows_ranks: "list_all (\<lambda>(m, r). r = rank m) (leaderboard_rows st)"
  by (simp add: leaderboard_rows_def list_all_iff)

text \<open>
  Claim C6. When the fetch on load is answered, the view holds all members in the order
  of the query (score descending), the rank of each is its position counted from 1, the
  rank shown beside each podium card and each row is that rank, and the result is the
  same whatever the stored rank column holds.
\<close>

theorem display_rank_is_position:
  assumes "\<not> fails (length (reqs w))"
  shows "map rank (lb_members (fst (fetchLeaderboard fails st w)))
           = map (\<lambda>k. Some (int k)) [1..<Suc (length (leaderboard_members w))] \<and>
         map m_id (lb_members (fst (fetchLeaderboard fails st w)))
           = map m_id (order_by_score_desc (leaderboard_members w)) \<and>
         mset (map m_id (lb_members (fst (fetchLeaderboard fails st w))))
           = mset (map m_id (leaderboard_members w)) \<and>
         score_descending (lb_members (fst (fetchLeaderboard fails st w))) \<and>
         list_all (\<lambda>(m, r). r = rank m)
           (podium_cards (fst (fetchLeaderboard fails st w)) @
            leaderboard_rows (fst (fetchLeaderboard fails st w))) \<and>
         mset (map fst (podium_cards (fst (fetchLeaderboard fails st w)) @
                        leaderboard_rows (fst (fetchLeaderboard fails st w))))
           = mset (lb_members (fst (fetchLeaderboard fails st w))) \<and>
         fst (fetchLeaderboard fails st
                (w\<lparr>leaderboard_members := map (\<lambda>m. m\<lparr>rank := stored m\<rparr>) (leaderboard_members w)\<rparr>))
           = fst (fetchLeaderboard fails st w)"
proof -
  let ?d = "order_by_score_desc (leaderboard_members w)"
  let ?st = "fst (fetchLeaderboard fails st w)"
  have mem: "lb_members ?st = rankedMembers 0 ?d"
    using assms by (simp add: fetchLeaderboard_answered[where fails=fails and w=w])
  have len: "length ?d = length (leaderboard_members w)"
    by (simp add: order_by_score_desc_def)
  have 1: "map rank (lb_members ?st) = map (\<lambda>k. Some (int k)) [1..<Suc (length (leaderboard_members w))]"
    using rankedMembers_rank[of 0 ?d] by (simp only: mem len) simp
  have 2: "map m_id (lb_members ?st) = map m_id ?d"
    by (simp only: mem rankedMembers_id)
  have 3: "mset (map m_id (lb_members ?st)) = mset (map m_id (leaderboard_members w))"
    by (simp only: 2) (simp add: order_by_score_desc_def)
  have 4: "score_descending (lb_members ?st)"
    by (simp only: mem score_descending_rankedMembers score_descending_order_by)
  have "length (lb_members ?st) = length (leaderboard_members w)"
    by (simp only: mem rankedMembers_length len)
  with 1 have "list_all (\<lambda>(m, r). r = rank m) (podium_cards ?st)"
    by (intro podium_cards_positions) simp
  then have 5: "list_all (\<lambda>(m, r). r = rank m) (podium_cards ?st @ leaderboard_rows ?st)"
    by (simp add: leaderboard_rows_ranks)
  have 6: "mset (map fst (podium_cards ?st @ leaderboard_rows ?st)) = mset (lb_members ?st)"
    by (rule podium_rows_members)
  let ?w = "w\<lparr>leaderboard_members := map (\<lambda>m. m\<lparr>rank := stored m\<rparr>) (leaderboard_members w)\<rparr>"
  have "\<not> fails (length (reqs ?w))" using assms by simp
  then have "lb_members (fst (fetchLeaderboard fails st ?w))
             = rankedMembers 0 (order_by_score_desc (leaderboard_members ?w))"
    by (simp add: fetchLeaderboard_answered[where fails=fails and w="?w"])
  then have "lb_members (fst (fetchLeaderboard fails st ?w)) = lb_members ?st"
    by (simp add: mem order_by_score_desc_rank_update rankedMembers_overwrites)
  moreover have "fst (fetchLeaderboard fails st ?w)
     = st\<lparr>lb_members := lb_members (fst (fetchLeaderboard fails st ?w)), lb_loading := False\<rparr>"
    using \<open>\<not> fails (length (reqs ?w))\<close>
    by (simp add: fetchLeaderboard_answered[where fails=fails and w="?w"])
  moreover have "?st = st\<lparr>lb_members := lb_members ?st, lb_loading := False\<rparr>"
    using assms by (simp add: fetchLeaderboard_answered[where fails=fails and w=w])
  ultimately have 7: "fst (fetchLeaderboard fails st ?w) = ?st"
    by simp
  from 1 2 3 4 5 6 7 show ?thesis by (simp only: simp_thms)
qed


theorem display_rank_is_position_witness:
  "\<not> reliable (length (reqs
       \<lparr>leaderboard_members =
          [\<lparr>m_id = 1, m_name = ''Al'', score = 10, avatar_url = None, rank = Some 9,
            created_at = 2, updated_at = 2\<rparr>,
           \<lparr>m_id = 2, m_name = ''Bo'', score = 30, avatar_url = None, rank = None,
            created_at = 1, updated_at = 1\<rparr>],
        clock = 3, next_uuid = 3, reqs = []\<rparr>)) \<and>
   map rank (lb_members (fst (fetchLeaderboard reliable Leaderboard_init
       \<lparr>leaderboard_members =
          [\<lparr>m_id = 1, m_name = ''Al'', score = 10, avatar_url = None, rank = Some 9,
            created_at = 2, updated_at = 2\<rparr>,
           \<lparr>m_id = 2, m_name = ''Bo'', score = 30, avatar_url = None, rank = None,
            created_at = 1, updated_at = 1\<rparr>],
        clock = 3, next_uuid = 3, reqs = []\<rparr>)))
   = [Some 1, Some 2]"
proof -
  let ?W = "\<lparr>leaderboard_members =
          [\<lparr>m_id = 1, m_name = ''Al'', score = 10, avatar_url = None, rank = Some 9,
            created_at = 2, updated_at = 2\<rparr>,
           \<lparr>m_id = 2, m_name = ''Bo'', score = 30, avatar_url = None, rank = None,
            created_at = 1, updated_at = 1\<rparr>],
        clock = 3, next_uuid = 3, reqs = []\<rparr>"
  have h: "\<not> reliable (length (reqs ?W))"
    by (simp add: reliable_def)
  from display_rank_is_position[where fails=reliable and w="?W" and st=Leaderboard_init, OF h]
  have "map rank (lb_members (fst (fetchLeaderboard reliable Leaderboard_init ?W)))
        = map (\<lambda>k. Some (int k)) [1..<Suc (length (leaderboard_members ?W))]"
    by (rule conjunct1)
  then show ?thesis using h by simp
qed

text \<open>
  Claim C5, as amended. When the fetch is answered, the podium (the first three) followed
  by the remainder is the fetched list: exactly the members of the table, each once, in
  descending order of score. The order among members of equal score is the one the
  query returned; the creation time plays no part in it.
\<close>

theorem podium_and_rest_cover_members:
  assumes "\<not> fails (length (reqs w))" and "pk_ok (leaderboard_members w)"
  shows "topThree (fst (fetchLeaderboard fails st w)) @ remaining (fst (fetchLeaderboard fails st w))
           = lb_members (fst (fetchLeaderboard fails st w)) \<and>
         length (topThree (fst (fetchLeaderboard fails st w)))
           = min 3 (length (leaderboard_members w)) \<and>
         mset (map (\<lambda>m. m\<lparr>rank := None\<rparr>)
                 (topThree (fst (fetchLeaderboard fails st w)) @
                  remaining (fst (fetchLeaderboard fails st w))))
           = mset (map (\<lambda>m. m\<lparr>rank := None\<rparr>) (leaderboard_members w)) \<and>
         distinct (map m_id (topThree (fst (fetchLeaderboard fails st w)) @
                             remaining (fst (fetchLeaderboard fails st w)))) \<and>
         score_descending (topThree (fst (fetchLeaderboard fails st w)) @
                           remaining (fst (fetchLeaderboard fails st w)))"
proof -
  let ?d = "order_by_score_desc (leaderboard_members w)"
  let ?st = "fst (fetchLeaderboard fails st w)"
  have mem: "lb_members ?st = rankedMembers 0 ?d"
    using assms(1) by (simp add: fetchLeaderboard_answered[where fails=fails and w=w])
  have 1: "topThree ?st @ remaining ?st = lb_members ?st"
    by (simp add: topThree_def remaining_def)
  have 2: "length (topThree ?st) = min 3 (length (leaderboard_members w))"
    by (simp add: topThree_def mem order_by_score_desc_def min.commute)
  have "mset (map (\<lambda>m. m\<lparr>rank := None\<rparr>) (lb_members ?st))
        = image_mset (\<lambda>m. m\<lparr>rank := None\<rparr>) (mset ?d)"
    by (simp only: mem rankedMembers_forget_rank mset_map)
  then have 3: "mset (map (\<lambda>m. m\<lparr>rank := None\<rparr>) (lb_members ?st))
        = mset (map (\<lambda>m. m\<lparr>rank := None\<rparr>) (leaderboard_members w))"
    by (simp add: order_by_score_desc_def)
  have "mset (map m_id ?d) = mset (map m_id (leaderboard_members w))"
    by (simp add: order_by_score_desc_def)
  then have "distinct (map m_id ?d) = distinct (map m_id (leaderboard_members w))"
    by (rule mset_eq_imp_distinct_iff)
  with assms(2) have 4: "distinct (map m_id (lb_members ?st))"
    by (simp only: mem rankedMembers_id pk_ok_def)
  have 5: "score_descending (lb_members ?st)"
    by (simp only: mem score_descending_rankedMembers score_descending_order_by)
  from 1 2 3 4 5 show ?thesis by (simp only: simp_thms)
qed

theorem podium_and_rest_cover_members_witness:
  "\<not> reliable (length (reqs
       \<lparr>leaderboard_members =
          [\<lparr>m_id = 1, m_name = ''Al'', score = 10, avatar_url = None, rank = Some 2,
            created_at = 2, updated_at = 2\<rparr>,
           \<lparr>m_id = 2, m_name = ''Bo'', score = 10, avatar_url = None, rank = Some 1,
            created_at = 1, updated_at = 1\<rparr>],
        clock = 3, next_uuid = 3, reqs = []\<rparr>)) \<and>
   pk_ok (leaderboard_members
       \<lparr>leaderboard_members =
          [\<lparr>m_id = 1, m_name = ''Al'', score = 10, avatar_url = None, rank = Some 2,
            created_at = 2, updated_at = 2\<rparr>,
           \<lparr>m_id = 2, m_name = ''Bo'', score = 10, avatar_url = None, rank = Some 1,
            created_at = 1, updated_at = 1\<rparr>],
        clock = 3, next_uuid = 3, reqs = []\<rparr>) \<and>
   score_descending
     (topThree (fst (fetchLeaderboard reliable Leaderboard_init
       \<lparr>leaderboard_members =
          [\<lparr>m_id = 1, m_name = ''Al'', score = 10, avatar_url = None, rank = Some 2,
            created_at = 2, updated_at = 2\<rparr>,
           \<lparr>m_id = 2, m_name = ''Bo'', score = 10, avatar_url = None, rank = Some 1,
            created_at = 1, updated_at = 1\<rparr>],
        clock = 3, next_uuid = 3, reqs = []\<rparr>)) @
      remaining (fst (fetchLeaderboard reliable Leaderboard_init
       \<lparr>leaderboard_members =
          [\<lparr>m_id = 1, m_name = ''Al'', score = 10, avatar_url = None, rank = Some 2,
            created_at = 2, updated_at = 2\<rparr>,
           \<lparr>m_id = 2, m_name = ''Bo'', score = 10, avatar_url = None, rank = Some 1,
            created_at = 1, updated_at = 1\<rparr>],
        clock = 3, next_uuid = 3, reqs = []\<rparr>)))"
proof -
  let ?W = "\<lparr>leaderboard_members =
          [\<lparr>m_id = 1, m_name = ''Al'', score = 10, avatar_url = None, rank = Some 2,
            created_at = 2, updated_at = 2\<rparr>,
           \<lparr>m_id = 2, m_name = ''Bo'', score = 10, avatar_url = None, rank = Some 1,
            created_at = 1, updated_at = 1\<rparr>],
        clock = 3, next_uuid = 3, reqs = []\<rparr>"
  have h: "\<not> reliable (length (reqs ?W))"
    by (simp add: reliable_def)
  have pk: "pk_ok (leaderboard_members ?W)"
    by (simp add: pk_ok_def)
  from podium_and_rest_cover_members[where fails=reliable and w="?W" and st=Leaderboard_init, OF h pk]
  show ?thesis using h pk by blast
qed

text \<open>
  Two members with the same score, the later one first in the fetched list: the view
  shows them in that order, the later one on top.
\<close>

theorem ties_not_by_creation_time_counterexample:
  "\<not> score_then_created
     (topThree (fst (fetchLeaderboard reliable Leaderboard_init
       \<lparr>leaderboard_members =
          [\<lparr>m_id = 1, m_name = ''Al'', score = 10, avatar_url = None, rank = Some 2,
            created_at = 2, updated_at = 2\<rparr>,
           \<lparr>m_id = 2, m_name = ''Bo'', score = 10, avatar_url = None, rank = Some 1,
            created_at = 1, updated_at = 1\<rparr>],
        clock = 3, next_uuid = 3, reqs = []\<rparr>)) @
      remaining (fst (fetchLeaderboard reliable Leaderboard_init
       \<lparr>leaderboard_members =
          [\<lparr>m_id = 1, m_name = ''Al'', score = 10, avatar_url = None, rank = Some 2,
            created_at = 2, updated_at = 2\<rparr>,
           \<lparr>m_id = 2, m_name = ''Bo'', score = 10, avatar_url = None, rank = Some 1,
            created_at = 1, updated_at = 1\<rparr>],
        clock = 3, next_uuid = 3, reqs = []\<rparr>)))"
  by (simp add: score_then_created_def precedes_def topThree_def remaining_def
        fetchLeaderboard_def db_request_def stmt_of_def reliable_def order_by_score_desc_def
        Leaderboard_init_def)

section \<open>The admin check and the signup trigger\<close>

lemma select_admin_role_data:
  assumes "select_admin_role net roles u = Returned (Some d) e"
  shows "net = Up \<and> has_role roles u admin \<and> d = admin"
proof -
  from assms have up: "net = Up"
    by (cases net) (simp_all add: select_admin_role_def split: list.splits)
  with assms obtain r where r: "filter (\<lambda>r. ur_user_id r = u \<and> ur_role r = admin) roles = [r]"
    and d: "d = ur_role r"
    by (auto simp: select_admin_role_def split: list.splits)
  from r have "r \<in> set (filter (\<lambda>r. ur_user_id r = u \<and> ur_role r = admin) roles)"
    by simp
  then have "r \<in> set roles" "ur_user_id r = u" "ur_role r = admin"
    by simp_all
  with up d show ?thesis
    by (auto simp: has_role_def list_ex_iff)
qed

lemma select_admin_role_no_data:
  assumes "net \<noteq> Up \<or> \<not> has_role roles u admin"
  shows "select_admin_role net roles u = Threw \<or> (\<exists>e. select_admin_role net roles u = Returned None e)"
proof (cases "select_admin_role net roles u")
  case Threw
  then show ?thesis by simp
next
  case (Returned d e)
  show ?thesis
  proof (cases d)
    case None
    with Returned show ?thesis by simp
  next
    case (Some x)
    with Returned select_admin_role_data[of net roles u x e] assms show ?thesis by simp
  qed
qed

text \<open>
  Claim C7. For a session of user \<open>u\<close>: the admin page ends the check with admin status
  set only if the query was answered and \<^verbatim>\<open>user_roles\<close> holds an \<^verbatim>\<open>admin\<close> row for \<open>u\<close>, and so
  does the leaderboard view, whose status is unset when the check starts. Whenever the
  query fails (an error in the answer or an exception) or there is no such row, the
  outcome is one and the same: the admin page denies access, exactly as for a user who
  holds no \<^verbatim>\<open>admin\<close> row, and the leaderboard view leaves its status as it was.
\<close>

theorem admin_check_fails_closed:
  "(pg_isAdmin (checkAdminStatus net roles (Some u) st) \<longrightarrow> net = Up \<and> has_role roles u admin) \<and>
   (\<not> lb_isAdmin lst \<and> lb_isAdmin (checkAdminStatus_lb net roles (Some u) lst)
      \<longrightarrow> net = Up \<and> has_role roles u admin) \<and>
   (net \<noteq> Up \<or> \<not> has_role roles u admin \<longrightarrow>
      checkAdminStatus net roles (Some u) st = access_denied st \<and>
      \<not> pg_isAdmin (access_denied st) \<and>
      checkAdminStatus_lb net roles (Some u) lst = lst)"
proof (intro conjI impI)
  assume a: "pg_isAdmin (checkAdminStatus net roles (Some u) st)"
  have "\<exists>d e. select_admin_role net roles u = Returned (Some d) e"
  proof (rule ccontr)
    assume "\<not> ?thesis"
    then have "checkAdminStatus net roles (Some u) st = access_denied st"
      by (auto simp: checkAdminStatus_def split: query_result.splits option.splits)
    with a show False by (simp add: access_denied_def)
  qed
  then obtain d e where "select_admin_role net roles u = Returned (Some d) e" by blast
  from select_admin_role_data[OF this] show "net = Up" "has_role roles u admin" by simp_all
next
  assume a: "\<not> lb_isAdmin lst \<and> lb_isAdmin (checkAdminStatus_lb net roles (Some u) lst)"
  have "\<exists>d e. select_admin_role net roles u = Returned (Some d) e"
  proof (rule ccontr)
    assume "\<not> ?thesis"
    then have "checkAdminStatus_lb net roles (Some u) lst = lst"
      by (auto simp: checkAdminStatus_lb_def split: query_result.splits option.splits)
    with a show False by simp
  qed
  then obtain d e where "select_admin_role net roles u = Returned (Some d) e" by blast
  from select_admin_role_data[OF this] show "net = Up" "has_role roles u admin" by simp_all
next
  assume a: "net \<noteq> Up \<or> \<not> has_role roles u admin"
  from select_admin_role_no_data[OF a]
  show "checkAdminStatus net roles (Some u) st = access_denied st"
    by (auto simp: checkAdminStatus_def)
  from select_admin_role_no_data[OF a]
  show "checkAdminStatus_lb net roles (Some u) lst = lst"
    by (auto simp: checkAdminStatus_lb_def)
  show "\<not> pg_isAdmin (access_denied st)"
    by (simp add: access_denied_def)
qed

theorem admin_check_fails_closed_witness:
  "pg_isAdmin (checkAdminStatus Up [\<lparr>ur_id = 1, ur_user_id = 7, ur_role = admin\<rparr>] (Some 7) Admin_init) \<and>
   has_role [\<lparr>ur_id = 1, ur_user_id = 7, ur_role = admin\<rparr>] 7 admin \<and>
   Down \<noteq> Up \<and>
   checkAdminStatus Down [\<lparr>ur_id = 1, ur_user_id = 7, ur_role = admin\<rparr>] (Some 7) Admin_init
     = access_denied Admin_init \<and>
   \<not> has_role [\<lparr>ur_id = 2, ur_user_id = 7, ur_role = user\<rparr>] 7 admin \<and>
   checkAdminStatus Up [\<lparr>ur_id = 2, ur_user_id = 7, ur_role = user\<rparr>] (Some 7) Admin_init
     = access_denied Admin_init \<and>
   \<not> lb_isAdmin Leaderboard_init \<and>
   checkAdminStatus_lb Broken [\<lparr>ur_id = 1, ur_user_id = 7, ur_role = admin\<rparr>] (Some 7) Leaderboard_init
     = Leaderboard_init"
proof -
  let ?A = "[\<lparr>ur_id = 1, ur_user_id = 7, ur_role = admin\<rparr>]"
  let ?U = "[\<lparr>ur_id = 2, ur_user_id = 7, ur_role = user\<rparr>]"
  have p: "pg_isAdmin (checkAdminStatus Up ?A (Some 7) Admin_init)"
    by (simp add: checkAdminStatus_def select_admin_role_def)
  have d: "Down \<noteq> Up \<or> \<not> has_role ?A 7 admin" by simp
  have b: "Broken \<noteq> Up \<or> \<not> has_role ?A 7 admin" by simp
  have n: "Up \<noteq> Up \<or> \<not> has_role ?U 7 admin" by (simp add: has_role_def)
  have l: "\<not> lb_isAdmin Leaderboard_init" by (simp add: Leaderboard_init_def)
  from admin_check_fails_closed[of Up ?A 7 Admin_init Leaderboard_init] p
  have 1: "has_role ?A 7 admin" by blast
  from admin_check_fails_closed[of Down ?A 7 Admin_init Leaderboard_init] d
  have 2: "checkAdminStatus Down ?A (Some 7) Admin_init = access_denied Admin_init" by blast
  from admin_check_fails_closed[of Up ?U 7 Admin_init Leaderboard_init] n
  have 3: "checkAdminStatus Up ?U (Some 7) Admin_init = access_denied Admin_init" by blast
  from admin_check_fails_closed[of Broken ?A 7 Admin_init Leaderboard_init] b
  have 4: "checkAdminStatus_lb Broken ?A (Some 7) Leaderboard_init = Leaderboard_init" by blast
  from n have 5: "\<not> has_role ?U 7 admin" by simp
  from p 1 2 3 4 5 l show ?thesis by simp
qed


lemma filter_none: "x \<notin> set (map f xs) \<Longrightarrow> filter (\<lambda>y. f y = x) xs = []"
  by (induction xs) auto

text \<open>
  Claim C9. A signup either fails as a whole, or it leaves, in one step, the new user,
  exactly one profile for that identity (added by the trigger) and exactly one role row
  for it, with role \<^verbatim>\<open>user\<close>. It fails only if the identity exists already, the user has no
  email (\<^verbatim>\<open>email TEXT NOT NULL\<close>), or the key drawn for the role row is taken.
\<close>

theorem signup_creates_profile_and_role:
  assumes "fk_ok db"
  shows "case sign_up now fresh NEW db of
           Inr db' \<Rightarrow>
             (\<exists>email. au_email NEW = Some email \<and>
                auth_users db' = auth_users db @ [NEW] \<and>
                profiles db' = profiles db @
                  [\<lparr>p_id = au_id NEW, p_email = email,
                    p_full_name = COALESCE (au_full_name NEW) (Some email),
                    p_role = user, p_created_at = now, p_updated_at = now\<rparr>] \<and>
                user_roles db' = user_roles db @
                  [\<lparr>ur_id = fresh, ur_user_id = au_id NEW, ur_role = user\<rparr>] \<and>
                length (filter (\<lambda>p. p_id p = au_id NEW) (profiles db')) = 1 \<and>
                filter (\<lambda>r. ur_user_id r = au_id NEW) (user_roles db')
                  = [\<lparr>ur_id = fresh, ur_user_id = au_id NEW, ur_role = user\<rparr>])
         | Inl e \<Rightarrow>
             au_id NEW \<in> set (map au_id (auth_users db)) \<or> au_email NEW = None \<or>
             fresh \<in> set (map ur_id (user_roles db))"
proof (cases "au_id NEW \<in> set (map au_id (auth_users db))")
  case True
  then show ?thesis by (simp add: sign_up_def)
next
  case new: False
  with assms have np: "au_id NEW \<notin> set (map p_id (profiles db))"
    and nr: "au_id NEW \<notin> set (map ur_user_id (user_roles db))"
    by (auto simp: fk_ok_def)
  have fp: "filter (\<lambda>p. p_id p = au_id NEW) (profiles db) = []"
    using np by (rule filter_none)
  have fr: "filter (\<lambda>r. ur_user_id r = au_id NEW) (user_roles db) = []"
    using nr by (rule filter_none)
  from nr have nu: "\<not> list_ex (\<lambda>r. ur_user_id r = au_id NEW \<and> ur_role r = user) (user_roles db)"
    by (force simp: list_ex_iff)
  show ?thesis
  proof (cases "au_email NEW")
    case None
    with new np show ?thesis by (simp add: sign_up_def handle_new_user_def)
  next
    case (Some email)
    show ?thesis
    proof (cases "fresh \<in> set (map ur_id (user_roles db))")
      case True
      with new np Some show ?thesis
        by (simp add: sign_up_def handle_new_user_def Let_def)
    next
      case False
      with new np nu Some fp fr show ?thesis
        by (simp add: sign_up_def handle_new_user_def Let_def)
    qed
  qed
qed

theorem signup_creates_profile_and_role_witness:
  "fk_ok \<lparr>auth_users = [\<lparr>au_id = 1, au_email = Some ''a@x.org'', au_full_name = None\<rparr>],
          profiles = [\<lparr>p_id = 1, p_email = ''a@x.org'', p_full_name = Some ''a@x.org'',
                       p_role = user, p_created_at = 0, p_updated_at = 0\<rparr>],
          user_roles = [\<lparr>ur_id = 10, ur_user_id = 1, ur_role = user\<rparr>]\<rparr> \<and>
   sign_up 5 11 \<lparr>au_id = 2, au_email = Some ''b@x.org'', au_full_name = Some ''Bea''\<rparr>
     \<lparr>auth_users = [\<lparr>au_id = 1, au_email = Some ''a@x.org'', au_full_name = None\<rparr>],
      profiles = [\<lparr>p_id = 1, p_email = ''a@x.org'', p_full_name = Some ''a@x.org'',
                   p_role = user, p_created_at = 0, p_updated_at = 0\<rparr>],
      user_roles = [\<lparr>ur_id = 10, ur_user_id = 1, ur_role = user\<rparr>]\<rparr>
   = Inr
     \<lparr>auth_users = [\<lparr>au_id = 1, au_email = Some ''a@x.org'', au_full_name = None\<rparr>,
                     \<lparr>au_id = 2, au_email = Some ''b@x.org'', au_full_name = Some ''Bea''\<rparr>],
      profiles = [\<lparr>p_id = 1, p_email = ''a@x.org'', p_full_name = Some ''a@x.org'',
                   p_role = user, p_created_at = 0, p_updated_at = 0\<rparr>,
                  \<lparr>p_id = 2, p_email = ''b@x.org'', p_full_name = Some ''Bea'',
                   p_role = user, p_created_at = 5, p_updated_at = 5\<rparr>],
      user_roles = [\<lparr>ur_id = 10, ur_user_id = 1, ur_role = user\<rparr>,
                    \<lparr>ur_id = 11, ur_user_id = 2, ur_role = user\<rparr>]\<rparr>"
proof -
  let ?D = "\<lparr>auth_users = [\<lparr>au_id = 1, au_email = Some ''a@x.org'', au_full_name = None\<rparr>],
      profiles = [\<lparr>p_id = 1, p_email = ''a@x.org'', p_full_name = Some ''a@x.org'',
                   p_role = user, p_created_at = 0, p_updated_at = 0\<rparr>],
      user_roles = [\<lparr>ur_id = 10, ur_user_id = 1, ur_role = user\<rparr>]\<rparr>"
  let ?N = "\<lparr>au_id = 2, au_email = Some ''b@x.org'', au_full_name = Some ''Bea''\<rparr>"
  have fk: "fk_ok ?D" by (simp add: fk_ok_def)
  obtain r where r: "sign_up 5 11 ?N ?D = r" by simp
  have ok: "\<exists>d. r = Inr d"
    unfolding r[symmetric] by (simp add: sign_up_def handle_new_user_def)
  then obtain d where d: "r = Inr d" by blast
  from signup_creates_profile_and_role[where db="?D" and now=5 and fresh=11 and NEW="?N", OF fk]
  have "auth_users d = auth_users ?D @ [?N] \<and>
        profiles d = profiles ?D @ [\<lparr>p_id = 2, p_email = ''b@x.org'',
           p_full_name = COALESCE (Some ''Bea'') (Some ''b@x.org''),
           p_role = user, p_created_at = 5, p_updated_at = 5\<rparr>] \<and>
        user_roles d = user_roles ?D @ [\<lparr>ur_id = 11, ur_user_id = 2, ur_role = user\<rparr>]"
    unfolding r d by simp
  then have "d = \<lparr>auth_users = auth_users ?D @ [?N],
        profiles = profiles ?D @ [\<lparr>p_id = 2, p_email = ''b@x.org'',
           p_full_name = Some ''Bea'',
           p_role = user, p_created_at = 5, p_updated_at = 5\<rparr>],
        user_roles = user_roles ?D @ [\<lparr>ur_id = 11, ur_user_id = 2, ur_role = user\<rparr>]\<rparr>"
    by (simp add: COALESCE_def)
  with fk r d show ?thesis by simp
qed

section \<open>No statement gets past the rank trigger\<close>

lemma update_ranks_on_score_change_no_result:
  "update_ranks_on_score_change now tbl = Some t \<Longrightarrow> False"
proof (rule update_ranks_on_score_change.raw_induct[where P = "\<lambda>_ _ _. False"])
  show "update_ranks_on_score_change now tbl = Some t \<Longrightarrow>
          update_ranks_on_score_change now tbl = Some t" .
next
  fix c :: "timestamptz \<Rightarrow> member list \<Rightarrow> member list option" and n tb r
  assume ih: "\<And>a b y. c a b = Some y \<Longrightarrow> False"
    and nested: "c n (update_leaderboard_ranks n tb) = Some r"
  from nested show False by (rule ih)
qed

lemma update_ranks_on_score_change_never_returns:
  "update_ranks_on_score_change now tbl = None"
  using update_ranks_on_score_change_no_result[of now tbl]
  by (cases "update_ranks_on_score_change now tbl") auto

lemma exec_stmt_trigger:
  "apply_stmt now st tbl = Inr t \<Longrightarrow> exec_stmt now st tbl = Inl statement_too_complex"
  by (simp add: exec_stmt_def update_ranks_on_score_change_never_returns)

lemma exec_stmt_aborts: "\<exists>e. exec_stmt now st tbl = Inl e"
  by (cases "apply_stmt now st tbl")
     (simp_all add: exec_stmt_def update_ranks_on_score_change_never_returns)

text \<open>
  Claim C1. The statement at the end of the migration script, on the empty table. The
  statement itself is in order, and one run of the trigger function on the eight rows
  would rank them 1 to 8 (for any table with distinct keys, see \<open>trigger_contiguous\<close> and
  \<open>trigger_follows_order\<close> above). But the trigger fires again for the update of its own
  function, without end: the statement ends with the error 54001 and the table stays
  empty. No insert, update or delete is ever committed (\<open>exec_stmt_aborts\<close>).
\<close>

theorem sample_data_insert_aborts:
  "apply_stmt 0 (Insert sample_data) [] = Inr (map (mk_row 0) sample_data) \<and>
   map (\<lambda>m. (m_id m, rank m)) (update_leaderboard_ranks 0 (map (mk_row 0) sample_data))
     = [(1, Some 1), (2, Some 2), (3, Some 3), (4, Some 4),
        (5, Some 5), (6, Some 6), (7, Some 7), (8, Some 8)] \<and>
   exec_stmt 0 (Insert sample_data) [] = Inl statement_too_complex"
proof -
  have 1: "apply_stmt 0 (Insert sample_data) [] = Inr (map (mk_row 0) sample_data)"
    by (simp add: sample_data_def int4_opt_def int4_def)
  have 2: "map (\<lambda>m. (m_id m, rank m)) (update_leaderboard_ranks 0 (map (mk_row 0) sample_data))
     = [(1, Some 1), (2, Some 2), (3, Some 3), (4, Some 4),
        (5, Some 5), (6, Some 6), (7, Some 7), (8, Some 8)]"
    by (simp add: sample_data_def mk_row_def rank_key_def update_leaderboard_ranks_def ranked_def
          update_updated_at_column_def)
  from 1 have 3: "exec_stmt 0 (Insert sample_data) [] = Inl statement_too_complex"
    by (rule exec_stmt_trigger)
  from 1 2 3 show ?thesis by (intro conjI)
qed

section \<open>The rank loop of the admin panel\<close>


lemma db_request_select:
  "\<not> fails (length (reqs w)) \<Longrightarrow>
     db_request fails SelectMembers w
       = (Inr (order_by_score_desc (leaderboard_members w)), w\<lparr>reqs := reqs w @ [SelectMembers]\<rparr>)"
  by (simp add: db_request_def stmt_of_def)


text \<open>A write comes back with an error: that of the network, of a value, or of the trigger.\<close>

lemma db_request_write_refused:
  assumes "stmt_of (next_uuid w) rq = Some s"
  shows "\<exists>e. db_request fails rq w = (Inl e, w\<lparr>reqs := reqs w @ [rq]\<rparr>)"
proof (cases s)
  case (Inl e)
  with assms show ?thesis by (simp add: db_request_def Let_def)
next
  case (Inr st)
  from exec_stmt_aborts obtain e where "exec_stmt (clock w) st (leaderboard_members w) = Inl e"
    by blast
  with assms Inr show ?thesis by (simp add: db_request_def Let_def)
qed









section \<open>Every write of the panel is refused\<close>

text \<open>No request changes the table: a query reads it, and a write is undone.\<close>

lemma db_request_keeps_table:
  "leaderboard_members (snd (db_request fails rq w)) = leaderboard_members w"
proof (cases "stmt_of (next_uuid w) rq")
  case None
  then show ?thesis by (simp add: db_request_def Let_def)
next
  case (Some s)
  from db_request_write_refused[OF Some, of fails] show ?thesis by auto
qed

lemma db_request_insert_refused:
  "\<exists>e. db_request fails (InsertMember n s a r) w
         = (Inl e, w\<lparr>reqs := reqs w @ [InsertMember n s a r]\<rparr>)"
  by (rule db_request_write_refused[of w "InsertMember n s a r" _ fails])
     (simp add: stmt_of_def)

lemma db_request_update_rank_refused:
  "\<exists>e. db_request fails (UpdateRank i r) w = (Inl e, w\<lparr>reqs := reqs w @ [UpdateRank i r]\<rparr>)"
  by (rule db_request_write_refused[of w "UpdateRank i r" _ fails]) (simp add: stmt_of_def)

lemma db_request_update_member_refused:
  "\<exists>e. db_request fails (UpdateMember i n s a) w
         = (Inl e, w\<lparr>reqs := reqs w @ [UpdateMember i n s a]\<rparr>)"
  by (rule db_request_write_refused[of w "UpdateMember i n s a" _ fails])
     (simp add: stmt_of_def)

lemma db_request_delete_refused:
  "\<exists>e. db_request fails (DeleteMember i) w = (Inl e, w\<lparr>reqs := reqs w @ [DeleteMember i]\<rparr>)"
  by (rule db_request_write_refused[of w "DeleteMember i" _ fails]) (simp add: stmt_of_def)

text \<open>The rank loop ends at its first update, whatever the members and the network.\<close>

lemma rank_loop_refused:
  "\<exists>e. rank_loop fails (m # ms) i w
         = (Some e, w\<lparr>reqs := reqs w @ [UpdateRank (m_id m) (int i + 1)]\<rparr>)"
proof -
  from db_request_update_rank_refused[of fails "m_id m" "int i + 1" w] obtain e where
    "db_request fails (UpdateRank (m_id m) (int i + 1)) w
       = (Inl e, w\<lparr>reqs := reqs w @ [UpdateRank (m_id m) (int i + 1)]\<rparr>)" by blast
  then show ?thesis by simp
qed

text \<open>
  An add with a score that \<^verbatim>\<open>parseInt\<close> reads, a save and a delete each send their one
  write, get an error for it and show the toast of the failure; none of them gets as far
  as \<^verbatim>\<open>updateRanks\<close>.
\<close>

lemma handleAddMember_refused:
  assumes "\<not> isNaN (parseInt (nm_score (newMember st)))"
  shows "handleAddMember fails st w =
           (show_toast ''Error'' ''Failed to add member'' ''destructive'' st,
            w\<lparr>reqs := reqs w @
               [InsertMember (nm_name (newMember st)) (parseInt (nm_score (newMember st)))
                  (or_null (nm_avatar_url (newMember st))) (int (length (members st)) + 1)]\<rparr>)"
proof -
  from db_request_insert_refused[of fails "nm_name (newMember st)"
      "parseInt (nm_score (newMember st))" "or_null (nm_avatar_url (newMember st))"
      "int (length (members st)) + 1" w]
  obtain e where "db_request fails
      (InsertMember (nm_name (newMember st)) (parseInt (nm_score (newMember st)))
         (or_null (nm_avatar_url (newMember st))) (int (length (members st)) + 1)) w
     = (Inl e, w\<lparr>reqs := reqs w @
          [InsertMember (nm_name (newMember st)) (parseInt (nm_score (newMember st)))
             (or_null (nm_avatar_url (newMember st))) (int (length (members st)) + 1)]\<rparr>)"
    by blast
  with assms show ?thesis by (simp add: handleAddMember_def Let_def)
qed

lemma handleSaveEdit_refused:
  assumes "editingMember st = Some em"
  shows "handleSaveEdit fails st w =
           (show_toast ''Error'' ''Failed to update member'' ''destructive'' st,
            w\<lparr>reqs := reqs w @
               [UpdateMember (em_id em) (em_name em) (em_score em)
                  (or_null (em_avatar_url em))]\<rparr>)"
proof -
  from db_request_update_member_refused[of fails "em_id em" "em_name em" "em_score em"
      "or_null (em_avatar_url em)" w]
  obtain e where "db_request fails
      (UpdateMember (em_id em) (em_name em) (em_score em) (or_null (em_avatar_url em))) w
     = (Inl e, w\<lparr>reqs := reqs w @
          [UpdateMember (em_id em) (em_name em) (em_score em) (or_null (em_avatar_url em))]\<rparr>)"
    by blast
  with assms show ?thesis by (simp add: handleSaveEdit_def)
qed

lemma handleDeleteMember_refused:
  "handleDeleteMember fails i st w =
     (show_toast ''Error'' ''Failed to delete member'' ''destructive'' st,
      w\<lparr>reqs := reqs w @ [DeleteMember i]\<rparr>)"
proof -
  from db_request_delete_refused[of fails i w] obtain e where
    "db_request fails (DeleteMember i) w = (Inl e, w\<lparr>reqs := reqs w @ [DeleteMember i]\<rparr>)"
    by blast
  then show ?thesis by (simp add: handleDeleteMember_def)
qed

section \<open>The admin panel on examples\<close>

lemmas client_defs = updateRanks_def fetchMembers_def db_request_def stmt_of_def exec_stmt_def
  update_ranks_on_score_change_never_returns json_integer_def out_of_range_def null_score_def
  int4_def int4_opt_def order_by_score_desc_def sortedMembers_def
  reliable_def drops_def row_def AdminPanel_init_def show_toast_def

lemmas parse_defs = parseInt_def StrWhiteSpaceChar_def digit_value_def to_number_def
  round_to_double_def isNaN_def or_null_def or_zero_def or_empty_def

lemmas field_defs = number_input_value_def valid_floating_point_number_def is_digit_def
  onChangeNewName_def onChangeNewScore_def setIsAddDialogOpen_def





text \<open>
  Claim C3, on one member loaded and one added with score 20. The insert is sent with
  the placeholder rank 2 and comes back with the error 54001 of the rank trigger: no row
  is inserted, the panel shows the toast of a failed add and leaves the dialog as it is,
  and \<^verbatim>\<open>updateRanks\<close> is not called, so that no rank is computed for any row. It is so for
  every add that gets past the check of the score (\<open>handleAddMember_refused\<close>).
\<close>

theorem add_member_insert_refused:
  "handleAddMember reliable
     (onChangeNewScore (number_input_value ''20'') (onChangeNewName ''Bo'' (setIsAddDialogOpen True
        (fst (fetchMembers reliable AdminPanel_init
           \<lparr>leaderboard_members = [row 1 ''Al'' 10 None 1],
            clock = 2, next_uuid = 2, reqs = []\<rparr>)))))
     (snd (fetchMembers reliable AdminPanel_init
        \<lparr>leaderboard_members = [row 1 ''Al'' 10 None 1],
         clock = 2, next_uuid = 2, reqs = []\<rparr>))
   = (\<lparr>members = [row 1 ''Al'' 10 None 1], loading = False, editingMember = None,
       newMember = \<lparr>nm_name = ''Bo'', nm_score = ''20'', nm_avatar_url = []\<rparr>,
       isAddDialogOpen = True,
       toasts = [\<lparr>title = ''Error'', description = ''Failed to add member'',
                  variant = ''destructive''\<rparr>]\<rparr>,
      \<lparr>leaderboard_members = [row 1 ''Al'' 10 None 1], clock = 2, next_uuid = 2,
       reqs = [SelectMembers, InsertMember ''Bo'' (Num 20) None 2]\<rparr>)"
  by (simp add: handleAddMember_def parse_defs field_defs client_defs)

text \<open>
  Claim C4. An entry in the score field of the add dialog that is no number leaves the
  field with the empty value, which \<^verbatim>\<open>parseInt\<close> does not read: the add shows the error
  toast and does nothing else. No request is sent and the server, with its table, is as
  it was.
\<close>

theorem add_rejects_non_numeric_score:
  assumes "\<not> valid_floating_point_number entry"
  shows "handleAddMember fails (onChangeNewScore (number_input_value entry) st) w =
           (show_toast ''Invalid Score'' ''Please enter a valid number for the score''
              ''destructive'' (onChangeNewScore (number_input_value entry) st), w)"
proof -
  from assms have "nm_score (newMember (onChangeNewScore (number_input_value entry) st)) = []"
    by (simp add: number_input_value_def onChangeNewScore_def)
  moreover have "parseInt [] = NaN"
    by (simp add: parseInt_def)
  ultimately show ?thesis
    by (simp add: handleAddMember_def isNaN_def)
qed

theorem add_rejects_non_numeric_score_witness:
  "number_input_value ''12abc'' = [] \<and>
   handleAddMember reliable
     (onChangeNewScore (number_input_value ''12abc'') (onChangeNewName ''Zed''
        (setIsAddDialogOpen True
          (fst (fetchMembers reliable AdminPanel_init
             \<lparr>leaderboard_members = [row 1 ''Al'' 10 None 1],
              clock = 2, next_uuid = 2, reqs = []\<rparr>)))))
     (snd (fetchMembers reliable AdminPanel_init
        \<lparr>leaderboard_members = [row 1 ''Al'' 10 None 1],
         clock = 2, next_uuid = 2, reqs = []\<rparr>))
   = (\<lparr>members = [row 1 ''Al'' 10 None 1], loading = False, editingMember = None,
       newMember = \<lparr>nm_name = ''Zed'', nm_score = [], nm_avatar_url = []\<rparr>,
       isAddDialogOpen = True,
       toasts = [\<lparr>title = ''Invalid Score'',
                  description = ''Please enter a valid number for the score'',
                  variant = ''destructive''\<rparr>]\<rparr>,
      \<lparr>leaderboard_members = [row 1 ''Al'' 10 None 1], clock = 2, next_uuid = 2,
       reqs = [SelectMembers]\<rparr>)"
proof -
  have h: "\<not> valid_floating_point_number ''12abc''"
    by (simp add: valid_floating_point_number_def is_digit_def)
  have v: "number_input_value ''12abc'' = []"
    using h by (simp add: number_input_value_def)
  note t = add_rejects_non_numeric_score[where entry = "''12abc''" and fails = reliable
      and st = "onChangeNewName ''Zed'' (setIsAddDialogOpen True
          (fst (fetchMembers reliable AdminPanel_init
             \<lparr>leaderboard_members = [row 1 ''Al'' 10 None 1],
              clock = 2, next_uuid = 2, reqs = []\<rparr>)))"
      and w = "snd (fetchMembers reliable AdminPanel_init
        \<lparr>leaderboard_members = [row 1 ''Al'' 10 None 1],
         clock = 2, next_uuid = 2, reqs = []\<rparr>)", OF h]
  from t v show ?thesis
    by (simp add: field_defs client_defs)
qed

text \<open>
  Claim C10, on the member Al with score 10. A text that is no number in the score field
  of the row being edited makes the draft score 0, and saving sends an update with score
  0, as the claim says. But the update comes back with the error 54001 of the rank
  trigger: the panel shows the toast of a failed update and stays in edit mode, and the
  row keeps its score 10. No save gets further (\<open>handleSaveEdit_refused\<close>).
\<close>

theorem edit_score_zero_is_not_saved:
  "handleSaveEdit reliable
     (onChangeEditScore (number_input_value ''abc'') (handleEditMember (row 1 ''Al'' 10 None 1)
        (fst (fetchMembers reliable AdminPanel_init
           \<lparr>leaderboard_members = [row 1 ''Al'' 10 None 1, row 2 ''Bo'' 5 None 2],
            clock = 3, next_uuid = 3, reqs = []\<rparr>))))
     (snd (fetchMembers reliable AdminPanel_init
        \<lparr>leaderboard_members = [row 1 ''Al'' 10 None 1, row 2 ''Bo'' 5 None 2],
         clock = 3, next_uuid = 3, reqs = []\<rparr>))
   = (\<lparr>members = [row 1 ''Al'' 10 None 1, row 2 ''Bo'' 5 None 2], loading = False,
       editingMember = Some \<lparr>em_id = 1, em_name = ''Al'', em_score = Num 0, em_avatar_url = []\<rparr>,
       newMember = \<lparr>nm_name = [], nm_score = [], nm_avatar_url = []\<rparr>,
       isAddDialogOpen = False,
       toasts = [\<lparr>title = ''Error'', description = ''Failed to update member'',
                  variant = ''destructive''\<rparr>]\<rparr>,
      \<lparr>leaderboard_members = [row 1 ''Al'' 10 None 1, row 2 ''Bo'' 5 None 2],
       clock = 3, next_uuid = 3,
       reqs = [SelectMembers, UpdateMember 1 ''Al'' (Num 0) None]\<rparr>)"
  by (simp add: handleSaveEdit_def handleEditMember_def onChangeEditScore_def
        parse_defs field_defs client_defs)

end
